theory Spec2Isabelle
  imports Complex_Main
begin

section \<open>Numbers of the script: Decimal and float\<close>

text \<open>
  The script \<^verbatim>\<open>scripts/spot_perp_arb.py\<close> computes with two kinds of numbers.
  Prices and order sizes are Python \<^verbatim>\<open>Decimal\<close> values; every arithmetic operation on
  them is rounded to the 28 significant digits of the default decimal context, ties to
  even. Balances, the return in basis points, the slippage factor and the timestamps are
  Python floats, that is IEEE binary64 values, where every operation is rounded to 53
  significant bits, ties to even, with gradual underflow below \<open>2 ^ - 1022\<close>.

  Both kinds are modelled by their exact rational value, and each operation by the exact
  operation followed by the rounding it performs. Only finite values are modelled: the
  special values (NaN, the infinities, the sign of zero) and the exponent limits of the
  decimal context and of binary64 overflow are left out.
\<close>

type_synonym decimal = rat
type_synonym pyfloat = rat

definition round_half_even :: "rat \<Rightarrow> int" where
  "round_half_even q =
     (let f = \<lfloor>q\<rfloor>; r = q - of_int f
      in if r < 1 / 2 then f else if 1 / 2 < r then f + 1 else if even f then f else f + 1)"

text \<open>\<open>ndigits b n\<close> is the number of digits of \<open>n\<close> in base \<open>b\<close> (0 for \<open>n \<le> 0\<close>).\<close>

function ndigits :: "int \<Rightarrow> int \<Rightarrow> int" where
  "ndigits b n = (if n \<le> 0 \<or> b \<le> 1 then 0 else 1 + ndigits b (n div b))"
  by pat_completeness auto
termination
  by (relation "measure (\<lambda>(b, n). nat n)") (auto intro!: Euclidean_Rings.int_div_less_self)

declare ndigits.simps [simp del]

text \<open>\<open>ilog b q\<close> is the exponent of the leading base-\<open>b\<close> digit of \<open>q \<noteq> 0\<close>:
  \<open>b ^ ilog b q \<le> \<bar>q\<bar> < b ^ (ilog b q + 1)\<close>.\<close>

definition ilog :: "int \<Rightarrow> rat \<Rightarrow> int" where
  "ilog b q =
     (let (n, d) = quotient_of \<bar>q\<bar>;
          k = ndigits b n - ndigits b d
      in if of_int b powi k \<le> \<bar>q\<bar> then k else k - 1)"

text \<open>Rounding to a multiple of \<open>b ^ e\<close>, ties to even.\<close>

definition round_at :: "int \<Rightarrow> int \<Rightarrow> rat \<Rightarrow> rat" where
  "round_at b e q = of_int (round_half_even (q / of_int b powi e)) * of_int b powi e"

text \<open>The rounding of the decimal context: 28 significant digits.\<close>

definition dec_round :: "rat \<Rightarrow> decimal" where
  "dec_round q = (if q = 0 then 0 else round_at 10 (ilog 10 q - 27) q)"

text \<open>The rounding of binary64: 53 significant bits, never finer than \<open>2 ^ - 1074\<close>.\<close>

definition float_round :: "rat \<Rightarrow> pyfloat" where
  "float_round q = (if q = 0 then 0 else round_at 2 (max (ilog 2 q - 52) (- 1074)) q)"

datatype py_exception =
    ConnectorError string
  | DivisionByZero
  | InvalidOperation
  | AssertionError string
  | AttributeError string

definition dec_sub :: "decimal \<Rightarrow> decimal \<Rightarrow> decimal" where
  "dec_sub a b = dec_round (a - b)"

definition dec_mul :: "decimal \<Rightarrow> decimal \<Rightarrow> decimal" where
  "dec_mul a b = dec_round (a * b)"

text \<open>Decimal division traps a zero divisor: \<^verbatim>\<open>DivisionByZero\<close>, and
  \<^verbatim>\<open>InvalidOperation\<close> for \<open>0 / 0\<close>.\<close>

definition dec_div :: "decimal \<Rightarrow> decimal \<Rightarrow> py_exception + decimal" where
  "dec_div a b =
     (if b = 0 then (if a = 0 then Inl InvalidOperation else Inl DivisionByZero)
      else Inr (dec_round (a / b)))"

text \<open>\<^verbatim>\<open>float(d)\<close> of a Decimal rounds; \<^verbatim>\<open>Decimal(f)\<close> of a float is exact.\<close>

definition float_of_decimal :: "decimal \<Rightarrow> pyfloat" where
  "float_of_decimal d = float_round d"

definition decimal_of_float :: "pyfloat \<Rightarrow> decimal" where
  "decimal_of_float f = f"

definition float_add :: "pyfloat \<Rightarrow> pyfloat \<Rightarrow> pyfloat" where
  "float_add a b = float_round (a + b)"

definition float_sub :: "pyfloat \<Rightarrow> pyfloat \<Rightarrow> pyfloat" where
  "float_sub a b = float_round (a - b)"

definition float_mul :: "pyfloat \<Rightarrow> pyfloat \<Rightarrow> pyfloat" where
  "float_mul a b = float_round (a * b)"

text \<open>\<^verbatim>\<open>a / b\<close> of two Python ints (here with a non-zero literal divisor) is the
  correctly rounded float; an int operand of a float operation is converted first.\<close>

definition int_truediv :: "int \<Rightarrow> int \<Rightarrow> pyfloat" where
  "int_truediv a b = float_round (of_int a / of_int b)"

definition float_of_int :: "int \<Rightarrow> pyfloat" where
  "float_of_int i = float_round (of_int i)"

section \<open>Data model\<close>

datatype StrategyState = Closed | Opening | Opened | Closing

datatype PositionAction = OPEN | CLOSE

datatype OrderType = LIMIT

datatype TradeType = BUY | SELL

text \<open>One call of \<^verbatim>\<open>self.buy\<close> or \<^verbatim>\<open>self.sell\<close>, with the arguments the script passes;
  \<open>position_action\<close> is \<open>None\<close> where the script passes none (the spot legs).\<close>

record order =
  connector_name :: string
  order_pair :: string
  trade_type :: TradeType
  amount :: decimal
  order_type :: OrderType
  price :: decimal
  position_action :: "PositionAction option"

text \<open>
  What the script reads from the framework during one call. The connectors, the clock
  and \<^verbatim>\<open>split_hb_trading_pair\<close> are not defined in the script; they are parameters
  here. A connector call either raises or returns a Decimal.
\<close>

record hb_env =
  current_timestamp :: pyfloat
  get_price_for_volume :: "string \<Rightarrow> string \<Rightarrow> bool \<Rightarrow> decimal \<Rightarrow> py_exception + decimal"
  get_available_balance :: "string \<Rightarrow> string \<Rightarrow> py_exception + decimal"
  split_hb_trading_pair :: "string \<Rightarrow> string \<times> string"

text \<open>
  The attributes of a \<^verbatim>\<open>SpotPerpArb\<close> object. \<open>private_position_mode_ready\<close> is the
  attribute \<^verbatim>\<open>_position_mode_ready\<close> (\<open>None\<close> while it does not exist), and
  \<open>last_submit_order_ts\<close> exists only once a submission method ran to its end. \<open>orders_sent\<close>
  records the calls of \<^verbatim>\<open>self.buy\<close> and \<^verbatim>\<open>self.sell\<close> in the order they were made; the
  two methods belong to the framework and are taken to return normally.
  Calls of the logger change nothing the script reads and are not modelled.
\<close>

record strategy =
  spot_connector :: string
  perp_connector :: string
  trading_pair :: string
  leverage :: int
  is_position_mode_ready :: bool
  private_position_mode_ready :: "bool option"
  base_order_amount :: decimal
  buy_spot_short_perp_profit_margin_bps :: int
  sell_spot_long_perp_profit_margin_bps :: int
  slippage_buffer_bps :: int
  strategy_state :: StrategyState
  completed_order_ids :: "string list"
  next_arbitrage_opening_ts :: pyfloat
  next_arbitrage_opening_delay :: int
  in_flight_state_start_ts :: pyfloat
  in_flight_state_tolerance :: int
  opened_state_start_ts :: pyfloat
  opened_state_tolerance :: int
  last_submit_order_ts :: "pyfloat option"
  orders_sent :: "order list"

text \<open>The class attributes, as shipped.\<close>

definition init_strategy :: strategy where
  "init_strategy =
     \<lparr> spot_connector = ''kucoin'',
       perp_connector = ''kucoin_perpetual'',
       trading_pair = ''LINA-USDT'',
       leverage = 2,
       is_position_mode_ready = False,
       private_position_mode_ready = None,
       base_order_amount = 100,
       buy_spot_short_perp_profit_margin_bps = 20,
       sell_spot_long_perp_profit_margin_bps = 20,
       slippage_buffer_bps = 5,
       strategy_state = Closed,
       completed_order_ids = [],
       next_arbitrage_opening_ts = 0,
       next_arbitrage_opening_delay = 5,
       in_flight_state_start_ts = 0,
       in_flight_state_tolerance = 60,
       opened_state_start_ts = 0,
       opened_state_tolerance = 60 * 60 * 2,
       last_submit_order_ts = None,
       orders_sent = [] \<rparr>"

section \<open>Prices and balances\<close>

definition limit_taker_price :: "hb_env \<Rightarrow> strategy \<Rightarrow> string \<Rightarrow> bool \<Rightarrow> py_exception + decimal" where
  "limit_taker_price env s cname is_buy =
     get_price_for_volume env cname (trading_pair s) is_buy (base_order_amount s)"

definition limit_taker_price_with_slippage ::
  "hb_env \<Rightarrow> strategy \<Rightarrow> string \<Rightarrow> bool \<Rightarrow> py_exception + decimal" where
  "limit_taker_price_with_slippage env s cname is_buy =
     (case limit_taker_price env s cname is_buy of
        Inl e \<Rightarrow> Inl e
      | Inr p \<Rightarrow>
          let slippage =
                (if is_buy
                 then decimal_of_float (float_add (float_of_int 1) (int_truediv (slippage_buffer_bps s) 10000))
                 else decimal_of_float (float_sub (float_of_int 1) (int_truediv (slippage_buffer_bps s) 10000)))
          in Inr (dec_mul p slippage))"

definition get_balance :: "hb_env \<Rightarrow> strategy \<Rightarrow> string \<Rightarrow> bool \<Rightarrow> py_exception + pyfloat" where
  "get_balance env s cname is_base =
     (if cname = perp_connector s \<and> is_base
      then Inl (AssertionError ''Perpetual connector does not have base asset'')
      else
        let (base, quote) = split_hb_trading_pair env (trading_pair s)
        in case get_available_balance env cname (if is_base then base else quote) of
             Inl e \<Rightarrow> Inl e
           | Inr balance \<Rightarrow> Inr (float_of_decimal balance))"

section \<open>Opportunity detection and feasibility\<close>

text \<open>The expression \<^verbatim>\<open>float((a - b) / b) * 10000\<close> of \<^verbatim>\<open>should_buy_spot_short_perp\<close>
  and \<^verbatim>\<open>should_sell_spot_long_perp\<close>.\<close>

definition ret_pbs :: "decimal \<Rightarrow> decimal \<Rightarrow> py_exception + pyfloat" where
  "ret_pbs a b =
     (case dec_div (dec_sub a b) b of
        Inl e \<Rightarrow> Inl e
      | Inr q \<Rightarrow> Inr (float_mul (float_of_decimal q) (float_of_int 10000)))"

definition should_buy_spot_short_perp :: "hb_env \<Rightarrow> strategy \<Rightarrow> py_exception + bool" where
  "should_buy_spot_short_perp env s =
     (case limit_taker_price env s (spot_connector s) True of
        Inl e \<Rightarrow> Inl e
      | Inr spot_buy_price \<Rightarrow>
     (case limit_taker_price env s (perp_connector s) False of
        Inl e \<Rightarrow> Inl e
      | Inr perp_sell_price \<Rightarrow>
     (case ret_pbs perp_sell_price spot_buy_price of
        Inl e \<Rightarrow> Inl e
      | Inr r \<Rightarrow> Inr (of_int (buy_spot_short_perp_profit_margin_bps s) \<le> r))))"

definition can_buy_spot_short_perp :: "hb_env \<Rightarrow> strategy \<Rightarrow> py_exception + bool" where
  "can_buy_spot_short_perp env s =
     (case get_balance env s (spot_connector s) False of
        Inl e \<Rightarrow> Inl e
      | Inr spot_balance \<Rightarrow>
     (case limit_taker_price_with_slippage env s (spot_connector s) True of
        Inl e \<Rightarrow> Inl e
      | Inr buy_price_with_slippage \<Rightarrow>
          let spot_required = dec_mul buy_price_with_slippage (base_order_amount s);
              is_spot_enough = (spot_required \<le> decimal_of_float spot_balance)
          in
     (case get_balance env s (perp_connector s) False of
        Inl e \<Rightarrow> Inl e
      | Inr perp_balance \<Rightarrow>
     (case limit_taker_price env s (perp_connector s) False of
        Inl e \<Rightarrow> Inl e
      | Inr short_price \<Rightarrow>
          let perp_required = dec_mul short_price (base_order_amount s);
              is_perp_enough = (perp_required \<le> decimal_of_float perp_balance)
          in Inr (is_spot_enough \<and> is_perp_enough)))))"

definition should_sell_spot_long_perp :: "hb_env \<Rightarrow> strategy \<Rightarrow> py_exception + bool" where
  "should_sell_spot_long_perp env s =
     (case limit_taker_price env s (spot_connector s) False of
        Inl e \<Rightarrow> Inl e
      | Inr spot_sell_price \<Rightarrow>
     (case limit_taker_price env s (perp_connector s) True of
        Inl e \<Rightarrow> Inl e
      | Inr perp_buy_price \<Rightarrow>
     (case ret_pbs spot_sell_price perp_buy_price of
        Inl e \<Rightarrow> Inl e
      | Inr r \<Rightarrow> Inr (of_int (sell_spot_long_perp_profit_margin_bps s) \<le> r))))"

definition can_sell_spot_long_perp :: "hb_env \<Rightarrow> strategy \<Rightarrow> py_exception + bool" where
  "can_sell_spot_long_perp env s =
     (case get_balance env s (spot_connector s) True of
        Inl e \<Rightarrow> Inl e
      | Inr spot_balance \<Rightarrow>
          let spot_required = base_order_amount s;
              is_spot_enough = (spot_required \<le> decimal_of_float spot_balance)
          in
     (case get_balance env s (perp_connector s) False of
        Inl e \<Rightarrow> Inl e
      | Inr perp_balance \<Rightarrow>
     (case limit_taker_price env s (perp_connector s) True of
        Inl e \<Rightarrow> Inl e
      | Inr long_price_with_slippage \<Rightarrow>
          let perp_required = dec_mul long_price_with_slippage (base_order_amount s);
              is_perp_enough = (perp_required \<le> decimal_of_float perp_balance)
          in Inr (is_spot_enough \<and> is_perp_enough))))"

section \<open>Order submission\<close>

text \<open>
  The two submission methods read \<^verbatim>\<open>self.is_perp_in_long\<close> (line 211) and
  \<^verbatim>\<open>self.is_perp_in_short\<close> (line 271). These are the only occurrences of the two names:
  the class declares no such attribute and no method assigns one, so each read raises
  \<^verbatim>\<open>AttributeError\<close>.
\<close>

definition is_perp_in_long :: "strategy \<Rightarrow> py_exception + bool" where
  "is_perp_in_long s =
     Inl (AttributeError ''SpotPerpArb object has no attribute is_perp_in_long'')"

definition is_perp_in_short :: "strategy \<Rightarrow> py_exception + bool" where
  "is_perp_in_short s =
     Inl (AttributeError ''SpotPerpArb object has no attribute is_perp_in_short'')"

text \<open>A submission method returns the exception that escaped, if any, and the object
  as the call left it: an order sent before the exception stays sent.\<close>

definition buy_spot_short_perp :: "hb_env \<Rightarrow> strategy \<Rightarrow> py_exception option \<times> strategy" where
  "buy_spot_short_perp env s =
     (case limit_taker_price_with_slippage env s (spot_connector s) True of
        Inl e \<Rightarrow> (Some e, s)
      | Inr spot_buy_price_with_slippage \<Rightarrow>
     (case limit_taker_price_with_slippage env s (perp_connector s) False of
        Inl e \<Rightarrow> (Some e, s)
      | Inr perp_short_price_with_slippage \<Rightarrow>
          let spot_leg =
                \<lparr> connector_name = spot_connector s, order_pair = trading_pair s,
                  trade_type = BUY, amount = base_order_amount s, order_type = LIMIT,
                  price = spot_buy_price_with_slippage, position_action = None \<rparr>;
              s1 = s\<lparr> orders_sent := orders_sent s @ [spot_leg] \<rparr>
          in
     (case is_perp_in_long s1 of
        Inl e \<Rightarrow> (Some e, s1)
      | Inr in_long \<Rightarrow>
          let pa = (if in_long then CLOSE else OPEN);
              perp_leg =
                \<lparr> connector_name = perp_connector s1, order_pair = trading_pair s1,
                  trade_type = SELL, amount = base_order_amount s1, order_type = LIMIT,
                  price = perp_short_price_with_slippage, position_action = Some pa \<rparr>
          in (None, s1\<lparr> orders_sent := orders_sent s1 @ [perp_leg],
                         last_submit_order_ts := Some (current_timestamp env) \<rparr>))))"

definition sell_spot_long_perp :: "hb_env \<Rightarrow> strategy \<Rightarrow> py_exception option \<times> strategy" where
  "sell_spot_long_perp env s =
     (case limit_taker_price_with_slippage env s (perp_connector s) True of
        Inl e \<Rightarrow> (Some e, s)
      | Inr perp_long_price_with_slippage \<Rightarrow>
     (case limit_taker_price_with_slippage env s (spot_connector s) False of
        Inl e \<Rightarrow> (Some e, s)
      | Inr spot_sell_price_with_slippage \<Rightarrow>
     (case is_perp_in_short s of
        Inl e \<Rightarrow> (Some e, s)
      | Inr in_short \<Rightarrow>
          let pa = (if in_short then CLOSE else OPEN);
              perp_leg =
                \<lparr> connector_name = perp_connector s, order_pair = trading_pair s,
                  trade_type = BUY, amount = base_order_amount s, order_type = LIMIT,
                  price = perp_long_price_with_slippage, position_action = Some pa \<rparr>;
              spot_leg =
                \<lparr> connector_name = spot_connector s, order_pair = trading_pair s,
                  trade_type = SELL, amount = base_order_amount s, order_type = LIMIT,
                  price = spot_sell_price_with_slippage, position_action = None \<rparr>
          in (None, s\<lparr> orders_sent := orders_sent s @ [perp_leg, spot_leg],
                        last_submit_order_ts := Some (current_timestamp env) \<rparr>))))"

section \<open>The lifecycle\<close>

definition update_in_flight_state :: "hb_env \<Rightarrow> strategy \<Rightarrow> strategy" where
  "update_in_flight_state env s =
     (if strategy_state s = Opening \<and> length (completed_order_ids s) = 2
      then s\<lparr> strategy_state := Opened,
               completed_order_ids := [],
               opened_state_start_ts := current_timestamp env \<rparr>
      else if strategy_state s = Closing \<and> length (completed_order_ids s) = 2
      then s\<lparr> strategy_state := Closed,
               next_arbitrage_opening_ts :=
                 float_add (current_timestamp env) (next_arbitrage_opening_ts s),
               completed_order_ids := [] \<rparr>
      else s)"

definition update_static_state :: "hb_env \<Rightarrow> strategy \<Rightarrow> strategy" where
  "update_static_state env s =
     (let s' = (if strategy_state s = Closed then s\<lparr> strategy_state := Opening \<rparr>
                else if strategy_state s = Opened then s\<lparr> strategy_state := Closing \<rparr>
                else s)
      in s'\<lparr> in_flight_state_start_ts := current_timestamp env \<rparr>)"

text \<open>Python's \<^verbatim>\<open>a() and b()\<close>: \<open>b\<close> is evaluated only when \<open>a\<close> returned true.\<close>

definition py_and :: "py_exception + bool \<Rightarrow> py_exception + bool \<Rightarrow> py_exception + bool" where
  "py_and a b = (case a of Inl e \<Rightarrow> Inl e | Inr x \<Rightarrow> if x then b else Inr False)"

text \<open>\<^verbatim>\<open>on_tick\<close> returns the exception that escaped, if any, and the object as the call
  left it (what was assigned before an exception stays assigned).\<close>

definition on_tick :: "hb_env \<Rightarrow> strategy \<Rightarrow> py_exception option \<times> strategy" where
  "on_tick env s =
     (if \<not> is_position_mode_ready s then (None, s)
      else
        let s1 = update_in_flight_state env s in
        if strategy_state s1 = Opening \<or> strategy_state s1 = Closing then (None, s1)
        else if strategy_state s1 = Closed
                \<and> current_timestamp env < next_arbitrage_opening_ts s1 then (None, s1)
        else
          (case py_and (should_buy_spot_short_perp env s1) (can_buy_spot_short_perp env s1) of
             Inl e \<Rightarrow> (Some e, s1)
           | Inr go_buy \<Rightarrow>
               if go_buy
               then (case buy_spot_short_perp env s1 of
                       (Some e, s2) \<Rightarrow> (Some e, s2)
                     | (None, s2) \<Rightarrow> (None, update_static_state env s2))
               else
                 (case py_and (should_sell_spot_long_perp env s1) (can_sell_spot_long_perp env s1) of
                    Inl e \<Rightarrow> (Some e, s1)
                  | Inr go_sell \<Rightarrow>
                      if go_sell
                      then (case sell_spot_long_perp env s1 of
                              (Some e, s2) \<Rightarrow> (Some e, s2)
                            | (None, s2) \<Rightarrow> (None, update_static_state env s2))
                      else (None, s1))))"

section \<open>Event handlers\<close>

text \<open>The completion handlers read only \<^verbatim>\<open>event.order_id\<close>.\<close>

definition did_complete_buy_order :: "string \<Rightarrow> strategy \<Rightarrow> strategy" where
  "did_complete_buy_order order_id s =
     s\<lparr> completed_order_ids := completed_order_ids s @ [order_id] \<rparr>"

definition did_complete_sell_order :: "string \<Rightarrow> strategy \<Rightarrow> strategy" where
  "did_complete_sell_order order_id s =
     s\<lparr> completed_order_ids := completed_order_ids s @ [order_id] \<rparr>"

definition did_change_position_mode_succeed :: "strategy \<Rightarrow> strategy" where
  "did_change_position_mode_succeed s = s\<lparr> private_position_mode_ready := Some True \<rparr>"

definition did_change_position_mode_fail :: "strategy \<Rightarrow> strategy" where
  "did_change_position_mode_fail s = s"

text \<open>The calls the framework makes on the object, and a run: the handlers applied one
  after the other, the clock going on after a tick that raised.\<close>

datatype event =
    Tick hb_env
  | BuyOrderCompleted string
  | SellOrderCompleted string
  | PositionModeChangeSucceeded
  | PositionModeChangeFailed

fun handle :: "strategy \<Rightarrow> event \<Rightarrow> strategy" where
  "handle s (Tick env) = snd (on_tick env s)"
| "handle s (BuyOrderCompleted order_id) = did_complete_buy_order order_id s"
| "handle s (SellOrderCompleted order_id) = did_complete_sell_order order_id s"
| "handle s PositionModeChangeSucceeded = did_change_position_mode_succeed s"
| "handle s PositionModeChangeFailed = did_change_position_mode_fail s"

definition run :: "strategy \<Rightarrow> event list \<Rightarrow> strategy" where
  "run s evs = foldl handle s evs"

section \<open>Concrete venues and objects\<close>

text \<open>A venue with fixed prices and balances for the pair \<^verbatim>\<open>LINA-USDT\<close>, used to run the
  definitions on concrete inputs. \<open>prices_A\<close> has a return of 25 basis points for buying
  spot and shorting the perpetual, and a negative one for the other direction;
  \<open>prices_B\<close> is its mirror image, with 25 basis points for selling spot and going long
  on the perpetual; with \<open>prices_flat\<close> neither direction has a return.\<close>

definition test_env :: "pyfloat \<Rightarrow> (string \<Rightarrow> bool \<Rightarrow> py_exception + decimal) \<Rightarrow> (string \<Rightarrow> string \<Rightarrow> py_exception + decimal) \<Rightarrow> hb_env" where
  "test_env now pr bal =
     \<lparr> current_timestamp = now,
       get_price_for_volume = (\<lambda>c tp b v. pr c b),
       get_available_balance = bal,
       split_hb_trading_pair = (\<lambda>_. (''LINA'', ''USDT'')) \<rparr>"

definition prices_A :: "string \<Rightarrow> bool \<Rightarrow> py_exception + decimal" where
  "prices_A c b = (if c = ''kucoin'' then (if b then Inr 1 else Inr (9999 / 10000))
                   else (if b then Inr (10026 / 10000) else Inr (10025 / 10000)))"

definition prices_B :: "string \<Rightarrow> bool \<Rightarrow> py_exception + decimal" where
  "prices_B c b = (if c = ''kucoin'' then (if b then Inr (10026 / 10000) else Inr (10025 / 10000))
                   else (if b then Inr 1 else Inr (9999 / 10000)))"

definition prices_flat :: "string \<Rightarrow> bool \<Rightarrow> py_exception + decimal" where
  "prices_flat c b = Inr 1"

definition env_A :: "pyfloat \<Rightarrow> hb_env" where
  "env_A now = test_env now prices_A (\<lambda>c a. Inr 1000)"

definition env_B :: "pyfloat \<Rightarrow> hb_env" where
  "env_B now = test_env now prices_B (\<lambda>c a. Inr 1000)"

definition env_flat :: "pyfloat \<Rightarrow> hb_env" where
  "env_flat now = test_env now prices_flat (\<lambda>c a. Inr 1000)"

definition ready_strategy :: "StrategyState \<Rightarrow> string list \<Rightarrow> strategy" where
  "ready_strategy st ids =
     init_strategy\<lparr> is_position_mode_ready := True, strategy_state := st,
                    completed_order_ids := ids \<rparr>"

section \<open>Notions used in the statements\<close>

text \<open>\<open>tradable\<close>: the position-mode flag is set and \<^verbatim>\<open>on_tick\<close> gets as far as looking for an
  opportunity, that is the state is \<open>Closed\<close> with the reopen time reached, or \<open>Opened\<close>.\<close>

definition tradable :: "hb_env \<Rightarrow> strategy \<Rightarrow> bool" where
  "tradable env s =
     (is_position_mode_ready s
      \<and> (strategy_state s = Closed \<and> \<not> current_timestamp env < next_arbitrage_opening_ts s
         \<or> strategy_state s = Opened))"

text \<open>Further venues: one whose spot price read raises, one with a spot buy price of
  zero, and one with negative prices.\<close>

definition prices_down :: "string \<Rightarrow> bool \<Rightarrow> py_exception + decimal" where
  "prices_down c b = (if c = ''kucoin'' then Inl (ConnectorError ''order book unavailable'')
                      else Inr 1)"

definition env_down :: "pyfloat \<Rightarrow> hb_env" where
  "env_down now = test_env now prices_down (\<lambda>c a. Inr 1000)"

definition prices_zero :: "string \<Rightarrow> bool \<Rightarrow> py_exception + decimal" where
  "prices_zero c b = (if c = ''kucoin'' then Inr 0 else Inr 1)"

definition env_zero :: "pyfloat \<Rightarrow> hb_env" where
  "env_zero now = test_env now prices_zero (\<lambda>c a. Inr 1000)"

definition prices_negative :: "string \<Rightarrow> bool \<Rightarrow> py_exception + decimal" where
  "prices_negative c b = (if c = ''kucoin'' then Inr (- 1) else Inr (- 2))"

definition env_negative :: "pyfloat \<Rightarrow> hb_env" where
  "env_negative now = test_env now prices_negative (\<lambda>c a. Inr 1000)"

text \<open>\<open>close_to eps x y\<close>: \<open>x\<close> is \<open>y\<close> up to the relative error \<open>eps\<close>.\<close>

definition close_to :: "rat \<Rightarrow> rat \<Rightarrow> rat \<Rightarrow> bool" where
  "close_to eps x y = (\<bar>x - y\<bar> \<le> eps * \<bar>y\<bar>)"

text \<open>The smallest positive normal binary64 number; from there on \<open>float_round\<close> keeps
  53 significant bits.\<close>

definition min_normal :: rat where
  "min_normal = 1 / 2 ^ 1022"

text \<open>The values for which \<open>float_round\<close> is binary64 rounding with 53 significant
  bits and no overflow: zero, and the magnitudes between twice the smallest normal
  number and \<open>2 ^ 1000\<close>.\<close>

definition in_normal_range :: "rat \<Rightarrow> bool" where
  "in_normal_range q = (q = 0 \<or> 2 * min_normal \<le> \<bar>q\<bar> \<and> \<bar>q\<bar> \<le> 2 ^ 1000)"

text \<open>Two more venues. In \<open>env_edge\<close> the return of buying spot and shorting the
  perpetual is just below 20 basis points. In \<open>env_short\<close> the spot quote balance is just
  below 100.05, the price 1 with the 5 basis points of slippage times the order size
  100.\<close>

definition prices_edge :: "string \<Rightarrow> bool \<Rightarrow> py_exception + decimal" where
  "prices_edge c b = (if c = ''kucoin'' then Inr 1
                      else Inr (10019999999999999999999 / 10 ^ 22))"

definition env_edge :: "pyfloat \<Rightarrow> hb_env" where
  "env_edge now = test_env now prices_edge (\<lambda>c a. Inr 1000)"

definition balances_short :: "string \<Rightarrow> string \<Rightarrow> py_exception + decimal" where
  "balances_short c a = (if c = ''kucoin'' then Inr (100049999999999995 / 10 ^ 15)
                         else Inr 1000)"

definition env_short :: "pyfloat \<Rightarrow> hb_env" where
  "env_short now = test_env now prices_A balances_short"

section \<open>The position-mode flag\<close>

lemma on_tick_not_ready: "\<not> is_position_mode_ready s \<Longrightarrow> on_tick env s = (None, s)"
  by (simp add: on_tick_def)

lemma handle_not_ready:
  "\<not> is_position_mode_ready s \<Longrightarrow>
     \<not> is_position_mode_ready (handle s ev) \<and> orders_sent (handle s ev) = orders_sent s
     \<and> strategy_state (handle s ev) = strategy_state s"
  by (cases ev)
     (simp_all add: on_tick_not_ready did_complete_buy_order_def did_complete_sell_order_def
        did_change_position_mode_succeed_def did_change_position_mode_fail_def)

lemma run_not_ready:
  "\<not> is_position_mode_ready s \<Longrightarrow>
     \<not> is_position_mode_ready (run s evs) \<and> orders_sent (run s evs) = orders_sent s
     \<and> strategy_state (run s evs) = strategy_state s"
  unfolding run_def
proof (induction evs arbitrary: s)
  case Nil
  then show ?case by simp
next
  case (Cons ev evs)
  from handle_not_ready [OF Cons.prems, of ev] Cons.IH [of "handle s ev"]
  show ?case by simp
qed

text \<open>
  Claim C6. Whatever calls the framework makes on a fresh object, the flag
  \<open>is_position_mode_ready\<close> stays false: the handler of a successful position-mode change
  assigns the other attribute \<^verbatim>\<open>_position_mode_ready\<close>. So every \<^verbatim>\<open>on_tick\<close> returns at
  its first test, leaving the object as it was, and no order is ever submitted.
\<close>

theorem position_mode_flag_never_set:
  "\<not> is_position_mode_ready (run init_strategy evs)
   \<and> is_position_mode_ready (did_change_position_mode_succeed (run init_strategy evs))
       = is_position_mode_ready (run init_strategy evs)
   \<and> private_position_mode_ready (did_change_position_mode_succeed (run init_strategy evs))
       = Some True
   \<and> on_tick env (run init_strategy evs) = (None, run init_strategy evs)
   \<and> orders_sent (run init_strategy evs) = []"
proof -
  have init: "\<not> is_position_mode_ready init_strategy" "orders_sent init_strategy = []"
    by (simp_all add: init_strategy_def)
  from run_not_ready [OF init(1), of evs] init(2)
  show ?thesis
    by (simp add: on_tick_not_ready did_change_position_mode_succeed_def)
qed

theorem position_mode_flag_never_set_witness:
  "on_tick (env_A 100) (run init_strategy [PositionModeChangeSucceeded, Tick (env_A 99)])
     = (None, run init_strategy [PositionModeChangeSucceeded, Tick (env_A 99)])
   \<and> orders_sent (run init_strategy [PositionModeChangeSucceeded, Tick (env_A 99), Tick (env_A 100)]) = []
   \<and> should_buy_spot_short_perp (env_A 100) init_strategy = Inr True
   \<and> can_buy_spot_short_perp (env_A 100) init_strategy = Inr True"
proof -
  have "should_buy_spot_short_perp (env_A 100) init_strategy = Inr True"
    by code_simp
  moreover have "can_buy_spot_short_perp (env_A 100) init_strategy = Inr True"
    by code_simp
  ultimately show ?thesis
    using position_mode_flag_never_set [of "[PositionModeChangeSucceeded, Tick (env_A 99)]" "env_A 100"]
      position_mode_flag_never_set [of "[PositionModeChangeSucceeded, Tick (env_A 99), Tick (env_A 100)]" "env_A 100"]
    by simp
qed

section \<open>Reading a balance\<close>

text \<open>
  Claim C10. \<^verbatim>\<open>get_balance\<close> called with the perpetual connector and \<open>is_base = True\<close>
  fails its assertion. When \<open>is_base\<close> is false for the perpetual connector the assertion
  is not reached, and the call gives what the venue's \<^verbatim>\<open>get_available_balance\<close> gives for
  the base or the quote asset of the pair, as a float (an exception of the venue passes
  through).
\<close>

theorem get_balance_asserts_or_reads:
  "get_balance env s (perp_connector s) True
     = Inl (AssertionError ''Perpetual connector does not have base asset'')
   \<and> ((cname = perp_connector s \<longrightarrow> \<not> is_base) \<longrightarrow>
        get_balance env s cname is_base
          = map_sum id float_of_decimal
              (get_available_balance env cname
                 (if is_base then fst (split_hb_trading_pair env (trading_pair s))
                  else snd (split_hb_trading_pair env (trading_pair s)))))"
  by (auto simp: get_balance_def split: prod.splits sum.splits)

theorem get_balance_asserts_or_reads_witness:
  "get_balance (env_A 100) init_strategy ''kucoin_perpetual'' True
     = Inl (AssertionError ''Perpetual connector does not have base asset'')
   \<and> get_balance (env_A 100) init_strategy ''kucoin_perpetual'' False = Inr 1000
   \<and> get_balance (env_A 100) init_strategy ''kucoin'' True = Inr 1000"
proof -
  have f: "float_of_decimal 1000 = 1000" by code_simp
  show ?thesis
    using get_balance_asserts_or_reads [of "env_A 100" init_strategy "''kucoin_perpetual''" False]
      get_balance_asserts_or_reads [of "env_A 100" init_strategy "''kucoin''" True]
    by (simp add: f init_strategy_def env_A_def test_env_def)
qed

section \<open>What a tick does\<close>

lemma update_in_flight_state_static:
  "strategy_state s = Closed \<or> strategy_state s = Opened \<Longrightarrow> update_in_flight_state env s = s"
  by (auto simp: update_in_flight_state_def)

lemma should_buy_reads:
  "should_buy_spot_short_perp env s = Inr x \<Longrightarrow>
     \<exists>ps pp. limit_taker_price env s (spot_connector s) True = Inr ps
           \<and> limit_taker_price env s (perp_connector s) False = Inr pp"
  by (auto simp: should_buy_spot_short_perp_def split: sum.splits)

lemma should_sell_reads:
  "should_sell_spot_long_perp env s = Inr x \<Longrightarrow>
     \<exists>ps pp. limit_taker_price env s (spot_connector s) False = Inr ps
           \<and> limit_taker_price env s (perp_connector s) True = Inr pp"
  by (auto simp: should_sell_spot_long_perp_def split: sum.splits)

lemma py_and_True: "py_and a b = Inr True \<Longrightarrow> a = Inr True \<and> b = Inr True"
  by (auto simp: py_and_def split: sum.splits if_splits)

text \<open>Once its two prices are read, \<^verbatim>\<open>buy_spot_short_perp\<close> sends the spot buy and
  raises at the read of \<^verbatim>\<open>is_perp_in_long\<close>; \<^verbatim>\<open>sell_spot_long_perp\<close> raises at the read
  of \<^verbatim>\<open>is_perp_in_short\<close> before any order.\<close>

lemma buy_spot_short_perp_raises:
  assumes "should_buy_spot_short_perp env s = Inr x"
  shows "buy_spot_short_perp env s =
           (Some (AttributeError ''SpotPerpArb object has no attribute is_perp_in_long''),
            s\<lparr> orders_sent := orders_sent s @
                 [\<lparr> connector_name = spot_connector s, order_pair = trading_pair s,
                    trade_type = BUY, amount = base_order_amount s, order_type = LIMIT,
                    price = projr (limit_taker_price_with_slippage env s (spot_connector s) True),
                    position_action = None \<rparr>] \<rparr>)"
proof -
  from should_buy_reads [OF assms] obtain ps pp where
    r: "limit_taker_price env s (spot_connector s) True = Inr ps"
       "limit_taker_price env s (perp_connector s) False = Inr pp"
    by blast
  show ?thesis
    by (simp add: buy_spot_short_perp_def limit_taker_price_with_slippage_def r
        is_perp_in_long_def Let_def)
qed

lemma sell_spot_long_perp_raises:
  assumes "should_sell_spot_long_perp env s = Inr x"
  shows "sell_spot_long_perp env s =
           (Some (AttributeError ''SpotPerpArb object has no attribute is_perp_in_short''), s)"
proof -
  from should_sell_reads [OF assms] obtain ps pp where
    r: "limit_taker_price env s (spot_connector s) False = Inr ps"
       "limit_taker_price env s (perp_connector s) True = Inr pp"
    by blast
  show ?thesis
    by (simp add: sell_spot_long_perp_def limit_taker_price_with_slippage_def r
        is_perp_in_short_def Let_def)
qed

lemma on_tick_tradable:
  "tradable env s \<Longrightarrow>
   on_tick env s =
     (case py_and (should_buy_spot_short_perp env s) (can_buy_spot_short_perp env s) of
        Inl e \<Rightarrow> (Some e, s)
      | Inr go_buy \<Rightarrow>
          if go_buy
          then (case buy_spot_short_perp env s of
                  (Some e, s2) \<Rightarrow> (Some e, s2)
                | (None, s2) \<Rightarrow> (None, update_static_state env s2))
          else
            (case py_and (should_sell_spot_long_perp env s) (can_sell_spot_long_perp env s) of
               Inl e \<Rightarrow> (Some e, s)
             | Inr go_sell \<Rightarrow>
                 if go_sell
                 then (case sell_spot_long_perp env s of
                         (Some e, s2) \<Rightarrow> (Some e, s2)
                       | (None, s2) \<Rightarrow> (None, update_static_state env s2))
                 else (None, s)))"
  unfolding tradable_def
  by (elim conjE disjE) (simp_all add: on_tick_def update_in_flight_state_static)

lemma on_tick_buy:
  assumes t: "tradable env s"
    and go: "py_and (should_buy_spot_short_perp env s) (can_buy_spot_short_perp env s) = Inr True"
  shows "on_tick env s =
           (Some (AttributeError ''SpotPerpArb object has no attribute is_perp_in_long''),
            s\<lparr> orders_sent := orders_sent s @
                 [\<lparr> connector_name = spot_connector s, order_pair = trading_pair s,
                    trade_type = BUY, amount = base_order_amount s, order_type = LIMIT,
                    price = projr (limit_taker_price_with_slippage env s (spot_connector s) True),
                    position_action = None \<rparr>] \<rparr>)"
proof -
  from py_and_True [OF go] have "should_buy_spot_short_perp env s = Inr True" by simp
  from buy_spot_short_perp_raises [OF this] show ?thesis
    by (simp add: on_tick_tradable [OF t] go)
qed

lemma on_tick_sell:
  assumes t: "tradable env s"
    and nb: "py_and (should_buy_spot_short_perp env s) (can_buy_spot_short_perp env s) = Inr False"
    and go: "py_and (should_sell_spot_long_perp env s) (can_sell_spot_long_perp env s) = Inr True"
  shows "on_tick env s =
           (Some (AttributeError ''SpotPerpArb object has no attribute is_perp_in_short''), s)"
proof -
  from py_and_True [OF go] have "should_sell_spot_long_perp env s = Inr True" by simp
  from sell_spot_long_perp_raises [OF this] show ?thesis
    by (simp add: on_tick_tradable [OF t] nb go)
qed

lemma update_in_flight_state_idem:
  "update_in_flight_state env (update_in_flight_state env s) = update_in_flight_state env s"
  by (simp add: update_in_flight_state_def)

lemma update_in_flight_state_ready:
  "is_position_mode_ready (update_in_flight_state env s) = is_position_mode_ready s"
  by (simp add: update_in_flight_state_def)

lemma on_tick_via_update:
  "on_tick env s = (if is_position_mode_ready s then on_tick env (update_in_flight_state env s) else (None, s))"
  by (simp add: on_tick_def update_in_flight_state_idem update_in_flight_state_ready Let_def)

lemma tradable_ready_strategy:
  "tradable (test_env now pr bal) (ready_strategy Closed ids) = (0 \<le> now)"
  "tradable (test_env now pr bal) (ready_strategy Opened ids)"
  by (auto simp: tradable_def ready_strategy_def init_strategy_def test_env_def)

section \<open>Claim C1: the transitions out of the static states\<close>

text \<open>
  Claim C1. The claim asks that a tick in state \<open>Opened\<close> where only BuySpotShortPerp
  is profitable and feasible submits no order. \<^verbatim>\<open>on_tick\<close> tests the two directions
  without looking at the state: in state \<open>Opened\<close> with the prices of \<open>env_A\<close>, where
  only BuySpotShortPerp is profitable and feasible, it calls \<^verbatim>\<open>buy_spot_short_perp\<close>,
  which sends the spot buy and then raises \<^verbatim>\<open>AttributeError\<close>. One order is submitted,
  the exception escapes from \<^verbatim>\<open>on_tick\<close> and the state stays \<open>Opened\<close>.
\<close>

theorem hedged_tick_sends_spot_buy:
  "is_position_mode_ready (ready_strategy Opened [])
   \<and> strategy_state (ready_strategy Opened []) = Opened
   \<and> orders_sent (ready_strategy Opened []) = []
   \<and> py_and (should_buy_spot_short_perp (env_A 100) (ready_strategy Opened []))
        (can_buy_spot_short_perp (env_A 100) (ready_strategy Opened [])) = Inr True
   \<and> py_and (should_sell_spot_long_perp (env_A 100) (ready_strategy Opened []))
        (can_sell_spot_long_perp (env_A 100) (ready_strategy Opened [])) = Inr False
   \<and> fst (on_tick (env_A 100) (ready_strategy Opened []))
       = Some (AttributeError ''SpotPerpArb object has no attribute is_perp_in_long'')
   \<and> strategy_state (snd (on_tick (env_A 100) (ready_strategy Opened []))) = Opened
   \<and> map (\<lambda>leg. (connector_name leg, trade_type leg))
        (orders_sent (snd (on_tick (env_A 100) (ready_strategy Opened []))))
       = [(''kucoin'', BUY)]"
proof -
  let ?s = "ready_strategy Opened []"
  have 1: "is_position_mode_ready ?s \<and> strategy_state ?s = Opened \<and> orders_sent ?s = []"
    by (simp add: ready_strategy_def init_strategy_def)
  have 2: "py_and (should_buy_spot_short_perp (env_A 100) ?s)
             (can_buy_spot_short_perp (env_A 100) ?s) = Inr True"
    by code_simp
  have 3: "py_and (should_sell_spot_long_perp (env_A 100) ?s)
             (can_sell_spot_long_perp (env_A 100) ?s) = Inr False"
    by code_simp
  have t: "tradable (env_A 100) ?s"
    by (simp add: env_A_def tradable_ready_strategy)
  have c: "spot_connector ?s = ''kucoin''"
    by (simp add: ready_strategy_def init_strategy_def)
  from on_tick_buy [OF t 2] 1 2 3 c show ?thesis
    by simp
qed

section \<open>Claim C9: the position action of the perpetual leg\<close>

text \<open>
  Claim C9. The claim asks that every submission from \<open>Closed\<close> carries a position-open
  action on the perpetual leg and every submission from \<open>Opened\<close> a position-close
  action. The code takes the action from \<^verbatim>\<open>self.is_perp_in_long\<close> and
  \<^verbatim>\<open>self.is_perp_in_short\<close>, which do not exist. In state \<open>Closed\<close> with BuySpotShortPerp
  profitable and feasible (\<open>env_A\<close>), \<^verbatim>\<open>buy_spot_short_perp\<close> sends the spot buy and raises
  before the perpetual sell: no perpetual leg is submitted and the state stays \<open>Closed\<close>.
  In state \<open>Opened\<close> with SellSpotLongPerp profitable and feasible (\<open>env_B\<close>),
  \<^verbatim>\<open>sell_spot_long_perp\<close> raises before any order and the state stays \<open>Opened\<close>.
\<close>

theorem perp_leg_never_sent:
  "fst (buy_spot_short_perp (env_A 100) (ready_strategy Closed []))
     = Some (AttributeError ''SpotPerpArb object has no attribute is_perp_in_long'')
   \<and> map (\<lambda>leg. (connector_name leg, trade_type leg, position_action leg))
        (orders_sent (snd (buy_spot_short_perp (env_A 100) (ready_strategy Closed []))))
       = [(''kucoin'', BUY, None)]
   \<and> on_tick (env_A 100) (ready_strategy Closed [])
       = buy_spot_short_perp (env_A 100) (ready_strategy Closed [])
   \<and> strategy_state (snd (on_tick (env_A 100) (ready_strategy Closed []))) = Closed
   \<and> py_and (should_sell_spot_long_perp (env_B 100) (ready_strategy Opened []))
        (can_sell_spot_long_perp (env_B 100) (ready_strategy Opened [])) = Inr True
   \<and> sell_spot_long_perp (env_B 100) (ready_strategy Opened [])
       = (Some (AttributeError ''SpotPerpArb object has no attribute is_perp_in_short''),
          ready_strategy Opened [])
   \<and> on_tick (env_B 100) (ready_strategy Opened [])
       = (Some (AttributeError ''SpotPerpArb object has no attribute is_perp_in_short''),
          ready_strategy Opened [])"
proof -
  let ?c = "ready_strategy Closed []"
  let ?o = "ready_strategy Opened []"
  have i: "orders_sent ?c = []" "spot_connector ?c = ''kucoin''" "strategy_state ?c = Closed"
    by (simp_all add: ready_strategy_def init_strategy_def)
  have tc: "tradable (env_A 100) ?c" and to: "tradable (env_B 100) ?o"
    by (simp_all add: env_A_def env_B_def tradable_ready_strategy)
  have b: "py_and (should_buy_spot_short_perp (env_A 100) ?c)
             (can_buy_spot_short_perp (env_A 100) ?c) = Inr True"
    by code_simp
  have nb: "py_and (should_buy_spot_short_perp (env_B 100) ?o)
              (can_buy_spot_short_perp (env_B 100) ?o) = Inr False"
    by code_simp
  have sl: "py_and (should_sell_spot_long_perp (env_B 100) ?o)
              (can_sell_spot_long_perp (env_B 100) ?o) = Inr True"
    by code_simp
  from py_and_True [OF b] have sb: "should_buy_spot_short_perp (env_A 100) ?c = Inr True"
    by simp
  from py_and_True [OF sl] have ss: "should_sell_spot_long_perp (env_B 100) ?o = Inr True"
    by simp
  from buy_spot_short_perp_raises [OF sb] on_tick_buy [OF tc b]
    sell_spot_long_perp_raises [OF ss] on_tick_sell [OF to nb sl] sl i
  show ?thesis by simp
qed

section \<open>Claim C2: the reopen time after a close\<close>

text \<open>
  Claim C2. The claim asks that a close observed at time \<open>T\<close> sets the reopen time to
  \<open>T + 5\<close>, the configured delay, so that a tick at \<open>T + 3\<close> is held back. The code adds
  the previous reopen time instead of the delay. On the first close, at \<open>T = 100\<close> with
  the reopen time still at its initial 0, the reopen time becomes 100 and not 105. The
  tick at 103 is then not held back: with BuySpotShortPerp profitable and feasible it
  goes on to \<^verbatim>\<open>buy_spot_short_perp\<close> and sends the spot buy (the call then raises
  \<^verbatim>\<open>AttributeError\<close> and the state stays \<open>Closed\<close>). A second close at 200 sets the reopen
  time to 300.
\<close>

theorem reopen_time_adds_previous_reopen_time:
  "next_arbitrage_opening_delay (ready_strategy Closing [''spot-1'', ''perp-1'']) = 5
   \<and> next_arbitrage_opening_ts (ready_strategy Closing [''spot-1'', ''perp-1'']) = 0
   \<and> strategy_state (snd (on_tick (env_flat 100) (ready_strategy Closing [''spot-1'', ''perp-1''])))
       = Closed
   \<and> next_arbitrage_opening_ts
         (snd (on_tick (env_flat 100) (ready_strategy Closing [''spot-1'', ''perp-1''])))
       = 100
   \<and> orders_sent (snd (on_tick (env_flat 100) (ready_strategy Closing [''spot-1'', ''perp-1''])))
       = []
   \<and> map (\<lambda>leg. (connector_name leg, trade_type leg))
        (orders_sent
          (snd (on_tick (env_A 103)
             (snd (on_tick (env_flat 100) (ready_strategy Closing [''spot-1'', ''perp-1'']))))))
       = [(''kucoin'', BUY)]
   \<and> strategy_state
         (snd (on_tick (env_A 103)
            (snd (on_tick (env_flat 100) (ready_strategy Closing [''spot-1'', ''perp-1''])))))
       = Closed
   \<and> next_arbitrage_opening_ts
         (update_in_flight_state (env_flat 200)
            ((ready_strategy Closing [''spot-2'', ''perp-2''])\<lparr> next_arbitrage_opening_ts := 100 \<rparr>))
       = 300"
proof -
  let ?s = "ready_strategy Closing [''spot-1'', ''perp-1'']"
  have 1: "next_arbitrage_opening_delay ?s = 5 \<and> next_arbitrage_opening_ts ?s = 0"
    by (simp add: ready_strategy_def init_strategy_def)
  have 2: "strategy_state (snd (on_tick (env_flat 100) ?s)) = Closed"
    by code_simp
  have 3: "next_arbitrage_opening_ts (snd (on_tick (env_flat 100) ?s)) = 100"
    by code_simp
  have 4: "orders_sent (snd (on_tick (env_flat 100) ?s)) = []"
    by code_simp
  have 5: "map (\<lambda>leg. (connector_name leg, trade_type leg))
             (orders_sent (snd (on_tick (env_A 103) (snd (on_tick (env_flat 100) ?s)))))
           = [(''kucoin'', BUY)]"
    by code_simp
  have 6: "strategy_state (snd (on_tick (env_A 103) (snd (on_tick (env_flat 100) ?s)))) = Closed"
    by code_simp
  have 7: "next_arbitrage_opening_ts
         (update_in_flight_state (env_flat 200)
            ((ready_strategy Closing [''spot-2'', ''perp-2''])\<lparr> next_arbitrage_opening_ts := 100 \<rparr>))
       = 300"
    by code_simp
  from 1 2 3 4 5 6 7 show ?thesis by simp
qed

section \<open>Claim C3: repeated completion notifications\<close>

text \<open>
  Claim C3, as amended. The completion handlers append the order id of every
  notification to the list, and the threshold is the length of the list: notifications
  are counted one by one, whatever their order id. Two notifications with the same
  order id, received in state \<open>Opening\<close> or \<open>Closing\<close> with no completion recorded yet,
  make the list \<open>[i, i]\<close>, and the in-flight update then leaves the in-flight state
  (\<open>Opening\<close> to \<open>Opened\<close>, \<open>Closing\<close> to \<open>Closed\<close>) and empties the list.
\<close>

theorem same_order_id_counted_twice:
  assumes "e1 = BuyOrderCompleted i \<or> e1 = SellOrderCompleted i"
    and "e2 = BuyOrderCompleted i \<or> e2 = SellOrderCompleted i"
    and "completed_order_ids s = []"
    and "strategy_state s = Opening \<or> strategy_state s = Closing"
  shows "completed_order_ids (handle (handle s e1) e2) = [i, i]
       \<and> strategy_state (update_in_flight_state env (handle (handle s e1) e2))
           = (if strategy_state s = Opening then Opened else Closed)
       \<and> completed_order_ids (update_in_flight_state env (handle (handle s e1) e2)) = []"
  using assms
  by (auto simp: did_complete_buy_order_def did_complete_sell_order_def update_in_flight_state_def)

theorem same_order_id_counted_twice_witness:
  "completed_order_ids
     (handle (handle (ready_strategy Closing []) (SellOrderCompleted ''spot-1''))
        (SellOrderCompleted ''spot-1'')) = [''spot-1'', ''spot-1'']
   \<and> strategy_state
       (update_in_flight_state (env_flat 100)
          (handle (handle (ready_strategy Closing []) (SellOrderCompleted ''spot-1''))
             (SellOrderCompleted ''spot-1''))) = Closed"
  using same_order_id_counted_twice [of "SellOrderCompleted ''spot-1''" "''spot-1''"
      "SellOrderCompleted ''spot-1''" "ready_strategy Closing []" "env_flat 100"]
  by (simp add: ready_strategy_def)

text \<open>
  The claim as stated fails: the same notification received twice in state \<open>Opening\<close>
  is recorded twice, and the in-flight update then goes to \<open>Opened\<close>.
\<close>

theorem repeated_notification_counterexample:
  "strategy_state (ready_strategy Opening []) = Opening
   \<and> completed_order_ids
       (run (ready_strategy Opening []) [BuyOrderCompleted ''spot-1'', BuyOrderCompleted ''spot-1''])
       = [''spot-1'', ''spot-1'']
   \<and> strategy_state
       (update_in_flight_state (env_flat 100)
          (run (ready_strategy Opening []) [BuyOrderCompleted ''spot-1'', BuyOrderCompleted ''spot-1'']))
       = Opened"
  by (simp add: run_def ready_strategy_def did_complete_buy_order_def update_in_flight_state_def)

section \<open>Claim C5: failing price reads\<close>

text \<open>
  Claim C5, as amended. Nothing in the script catches an exception. If the price read
  for either leg of a direction raises, the evaluation of that direction raises the same
  exception, and a price of zero in the denominator makes it raise the division
  exception of the decimal context; the evaluation does not answer "not profitable". When
  \<^verbatim>\<open>on_tick\<close> reaches an evaluation that raises, the exception escapes from \<^verbatim>\<open>on_tick\<close>;
  no order is submitted in that tick and the object is left as the in-flight update left
  it.
\<close>

theorem failed_price_read_escapes:
  "(limit_taker_price env s (spot_connector s) True = Inl e
      \<longrightarrow> should_buy_spot_short_perp env s = Inl e)
   \<and> (limit_taker_price env s (spot_connector s) True = Inr ps
       \<and> limit_taker_price env s (perp_connector s) False = Inl e
      \<longrightarrow> should_buy_spot_short_perp env s = Inl e)
   \<and> (limit_taker_price env s (spot_connector s) True = Inr 0
       \<and> limit_taker_price env s (perp_connector s) False = Inr pp
      \<longrightarrow> should_buy_spot_short_perp env s
            = Inl (if dec_sub pp 0 = 0 then InvalidOperation else DivisionByZero))
   \<and> (limit_taker_price env s (spot_connector s) False = Inl e
      \<longrightarrow> should_sell_spot_long_perp env s = Inl e)
   \<and> (limit_taker_price env s (spot_connector s) False = Inr ps
       \<and> limit_taker_price env s (perp_connector s) True = Inl e
      \<longrightarrow> should_sell_spot_long_perp env s = Inl e)
   \<and> (limit_taker_price env s (spot_connector s) False = Inr ps
       \<and> limit_taker_price env s (perp_connector s) True = Inr 0
      \<longrightarrow> should_sell_spot_long_perp env s
            = Inl (if dec_sub ps 0 = 0 then InvalidOperation else DivisionByZero))
   \<and> (is_position_mode_ready s \<and> tradable env (update_in_flight_state env s)
       \<and> should_buy_spot_short_perp env (update_in_flight_state env s) = Inl e
      \<longrightarrow> on_tick env s = (Some e, update_in_flight_state env s))
   \<and> (is_position_mode_ready s \<and> tradable env (update_in_flight_state env s)
       \<and> py_and (should_buy_spot_short_perp env (update_in_flight_state env s))
                (can_buy_spot_short_perp env (update_in_flight_state env s)) = Inr False
       \<and> should_sell_spot_long_perp env (update_in_flight_state env s) = Inl e
      \<longrightarrow> on_tick env s = (Some e, update_in_flight_state env s))"
proof -
  have buy: "should_buy_spot_short_perp env s1 = Inl e \<Longrightarrow> tradable env s1 \<Longrightarrow>
               on_tick env s1 = (Some e, s1)" for s1
    by (simp add: on_tick_tradable py_and_def)
  have sell: "py_and (should_buy_spot_short_perp env s1) (can_buy_spot_short_perp env s1) = Inr False
               \<Longrightarrow> should_sell_spot_long_perp env s1 = Inl e \<Longrightarrow> tradable env s1 \<Longrightarrow>
               on_tick env s1 = (Some e, s1)" for s1
    by (simp add: on_tick_tradable) (simp add: py_and_def)
  have via: "is_position_mode_ready s \<Longrightarrow> on_tick env s = on_tick env (update_in_flight_state env s)"
    by (simp add: on_tick_via_update [of env s])
  show ?thesis
    by (intro conjI impI)
       (simp_all add: should_buy_spot_short_perp_def should_sell_spot_long_perp_def
          ret_pbs_def dec_div_def buy sell via)
qed

theorem failed_price_read_escapes_witness:
  "on_tick (env_down 100) (ready_strategy Closed [])
     = (Some (ConnectorError ''order book unavailable''), ready_strategy Closed [])"
proof -
  let ?s = "ready_strategy Closed []"
  have r: "is_position_mode_ready ?s" and st: "strategy_state ?s = Closed"
    by (simp_all add: ready_strategy_def)
  have u: "update_in_flight_state (env_down 100) ?s = ?s"
    by (simp add: update_in_flight_state_static st)
  have t: "tradable (env_down 100) ?s"
    by (simp add: tradable_def ready_strategy_def init_strategy_def env_down_def test_env_def)
  have p: "limit_taker_price (env_down 100) ?s (spot_connector ?s) True
             = Inl (ConnectorError ''order book unavailable'')"
    by (simp add: limit_taker_price_def env_down_def test_env_def prices_down_def
          ready_strategy_def init_strategy_def)
  from failed_price_read_escapes [of "env_down 100" ?s "ConnectorError ''order book unavailable''"]
    r u t p
  show ?thesis by simp
qed

text \<open>
  The claim as stated fails: the exception of a spot price read escapes from
  \<^verbatim>\<open>on_tick\<close>; a spot buy price of zero raises \<^verbatim>\<open>DivisionByZero\<close>, which escapes as
  well; and with the negative prices \<open>- 1\<close> and \<open>- 2\<close> the direction is reported
  profitable.
\<close>

theorem price_read_failure_counterexample:
  "fst (on_tick (env_down 100) (ready_strategy Closed []))
     = Some (ConnectorError ''order book unavailable'')
   \<and> should_buy_spot_short_perp (env_zero 100) (ready_strategy Closed []) = Inl DivisionByZero
   \<and> fst (on_tick (env_zero 100) (ready_strategy Closed [])) = Some DivisionByZero
   \<and> should_buy_spot_short_perp (env_negative 100) (ready_strategy Closed []) = Inr True"
proof -
  let ?s = "ready_strategy Closed []"
  have 1: "fst (on_tick (env_down 100) ?s) = Some (ConnectorError ''order book unavailable'')"
    by code_simp
  have 2: "should_buy_spot_short_perp (env_zero 100) ?s = Inl DivisionByZero"
    by code_simp
  have 3: "fst (on_tick (env_zero 100) ?s) = Some DivisionByZero"
    by code_simp
  have 4: "should_buy_spot_short_perp (env_negative 100) ?s = Inr True"
    by code_simp
  from 1 2 3 4 show ?thesis by simp
qed

section \<open>Claim C4: the number of recorded completions\<close>

text \<open>
  Claim C4, as amended. The handlers append one entry for every completion
  notification, in every state, and nothing in the script bounds the list or empties it
  outside the in-flight update; it can hold more than 2 entries. The in-flight update
  leaves \<open>Opening\<close> (for \<open>Opened\<close>) or \<open>Closing\<close> (for \<open>Closed\<close>) exactly when the list
  holds 2 entries, it empties the list whenever it changes the state, and with
  \<open>is_position_mode_ready\<close> set a tick in an in-flight state with another number of
  entries changes nothing.
\<close>

theorem in_flight_transition_exactly_at_two:
  "completed_order_ids (did_complete_buy_order i s) = completed_order_ids s @ [i]
   \<and> completed_order_ids (did_complete_sell_order i s) = completed_order_ids s @ [i]
   \<and> strategy_state (did_complete_buy_order i s) = strategy_state s
   \<and> strategy_state (did_complete_sell_order i s) = strategy_state s
   \<and> (strategy_state s = Opening
      \<longrightarrow> (strategy_state (update_in_flight_state env s) = Opened
            \<longleftrightarrow> length (completed_order_ids s) = 2))
   \<and> (strategy_state s = Closing
      \<longrightarrow> (strategy_state (update_in_flight_state env s) = Closed
            \<longleftrightarrow> length (completed_order_ids s) = 2))
   \<and> (strategy_state (update_in_flight_state env s) \<noteq> strategy_state s
      \<longrightarrow> completed_order_ids (update_in_flight_state env s) = [])
   \<and> (is_position_mode_ready s \<and> (strategy_state s = Opening \<or> strategy_state s = Closing)
       \<and> length (completed_order_ids s) \<noteq> 2
      \<longrightarrow> on_tick env s = (None, s))"
proof -
  have "is_position_mode_ready s \<and> (strategy_state s = Opening \<or> strategy_state s = Closing)
       \<and> length (completed_order_ids s) \<noteq> 2 \<longrightarrow> on_tick env s = (None, s)"
    by (auto simp: on_tick_def update_in_flight_state_def)
  then show ?thesis
    by (auto simp: update_in_flight_state_def did_complete_buy_order_def
        did_complete_sell_order_def)
qed

theorem in_flight_transition_exactly_at_two_witness:
  "strategy_state (update_in_flight_state (env_flat 101) (ready_strategy Opening [''spot-1'', ''perp-1'']))
       = Opened
   \<and> completed_order_ids (update_in_flight_state (env_flat 101) (ready_strategy Opening [''spot-1'', ''perp-1'']))
       = []
   \<and> strategy_state (update_in_flight_state (env_flat 101) (ready_strategy Closing [''perp-2'']))
       \<noteq> Closed
   \<and> on_tick (env_flat 101) (ready_strategy Closing [''perp-2''])
       = (None, ready_strategy Closing [''perp-2''])"
proof -
  have j: "strategy_state (ready_strategy Opening [''spot-1'', ''perp-1'']) = Opening
     \<and> length (completed_order_ids (ready_strategy Opening [''spot-1'', ''perp-1''])) = 2"
    by (simp add: ready_strategy_def)
  have k: "is_position_mode_ready (ready_strategy Closing [''perp-2''])
     \<and> strategy_state (ready_strategy Closing [''perp-2'']) = Closing
     \<and> length (completed_order_ids (ready_strategy Closing [''perp-2''])) \<noteq> 2"
    by (simp add: ready_strategy_def)
  from in_flight_transition_exactly_at_two
      [of "''x''" "ready_strategy Opening [''spot-1'', ''perp-1'']" "env_flat 101"] j
    in_flight_transition_exactly_at_two [of "''x''" "ready_strategy Closing [''perp-2'']" "env_flat 101"] k
  show ?thesis by auto
qed

text \<open>
  The claim as stated fails: after a third notification in state \<open>Opening\<close> the list
  holds 3 entries, and the following tick leaves the object as it is, in \<open>Opening\<close>.
\<close>

theorem third_completion_counterexample:
  "length (completed_order_ids
     (run (ready_strategy Opening [])
        [BuyOrderCompleted ''spot-1'', SellOrderCompleted ''perp-1'', BuyOrderCompleted ''spot-1'']))
     = 3
   \<and> on_tick (env_flat 100)
       (run (ready_strategy Opening [])
          [BuyOrderCompleted ''spot-1'', SellOrderCompleted ''perp-1'', BuyOrderCompleted ''spot-1''])
     = (None,
        run (ready_strategy Opening [])
          [BuyOrderCompleted ''spot-1'', SellOrderCompleted ''perp-1'', BuyOrderCompleted ''spot-1''])
   \<and> strategy_state
       (run (ready_strategy Opening [])
          [BuyOrderCompleted ''spot-1'', SellOrderCompleted ''perp-1'', BuyOrderCompleted ''spot-1''])
     = Opening"
  by (simp add: run_def ready_strategy_def did_complete_buy_order_def did_complete_sell_order_def
      on_tick_def update_in_flight_state_def)

section \<open>Rounding errors\<close>

text \<open>The relative error of one rounding: at most \<open>5 * 10 ^ - 28\<close> for the decimal
  context and at most \<open>2 ^ - 53\<close> for binary64 in its normal range; and how relative
  errors add up along a computation.\<close>

lemma ndigits_bounds:
  "0 < n \<Longrightarrow> 2 \<le> b \<Longrightarrow>
     1 \<le> ndigits b n \<and> b ^ nat (ndigits b n - 1) \<le> n \<and> n < b ^ nat (ndigits b n)"
proof (induction b n rule: ndigits.induct)
  case (1 b n)
  show ?case
  proof (cases "n div b \<le> 0")
    case True
    with 1 have "n < b"
      using pos_imp_zdiv_pos_iff [of b n] by auto
    moreover from True 1 have "ndigits b n = 1"
      by (simp add: ndigits.simps [of b n] ndigits.simps [of b "n div b"])
    ultimately show ?thesis using 1 by simp
  next
    case False
    with 1 have ih: "1 \<le> ndigits b (n div b)"
        "b ^ nat (ndigits b (n div b) - 1) \<le> n div b" "n div b < b ^ nat (ndigits b (n div b))"
      by auto
    from 1 have nd: "ndigits b n = 1 + ndigits b (n div b)"
      by (simp add: ndigits.simps [of b n])
    from 1 have bpos: "0 < b" by simp
    have e: "b * (n div b) + n mod b = n" by simp
    have m: "0 \<le> n mod b" "n mod b < b" using bpos by simp_all
    define P where "P = b ^ nat (ndigits b (n div b) - 1)"
    define Q where "Q = b ^ nat (ndigits b (n div b))"
    have lo: "b * (n div b) \<le> n"
      using e m by linarith
    have hi: "n < b * (n div b) + b"
      using e m by linarith
    from ih(2) bpos have "b * P \<le> b * (n div b)"
      unfolding P_def by (intro mult_left_mono) simp_all
    with lo have A: "b * P \<le> n" by linarith
    from ih(3) have "n div b + 1 \<le> Q"
      unfolding Q_def by simp
    with bpos have "b * (n div b + 1) \<le> b * Q"
      by (intro mult_left_mono) simp_all
    with hi have B: "n < b * Q"
      by (simp add: distrib_left)
    from ih(1) have "nat (ndigits b n - 1) = Suc (nat (ndigits b (n div b) - 1))"
      by (simp add: nd nat_diff_distrib Suc_nat_eq_nat_zadd1)
    moreover from ih(1) have "nat (ndigits b n) = Suc (nat (ndigits b (n div b)))"
      by (simp add: nd nat_add_distrib)
    ultimately show ?thesis
      using A B ih(1) nd by (simp add: P_def Q_def)
  qed
qed


lemma ilog_bounds:
  assumes q: "q \<noteq> 0" and b: "2 \<le> b"
  shows "of_int b powi (ilog b q) \<le> \<bar>q\<bar> \<and> \<bar>q\<bar> < of_int b powi (ilog b q + 1)"
proof -
  obtain n d where nd: "quotient_of \<bar>q\<bar> = (n, d)"
    by (cases "quotient_of \<bar>q\<bar>")
  from quotient_of_denom_pos [OF nd] have d: "0 < d" .
  from quotient_of_div [OF nd] have qe: "\<bar>q\<bar> = of_int n / of_int d" .
  from q have "0 < \<bar>q\<bar>" by simp
  with qe d have n: "0 < n"
    by (simp add: zero_less_divide_iff)
  define B :: rat where "B = of_int b"
  from b have B1: "1 < B" and B0: "B \<noteq> 0" and Bpos: "0 < B"
    by (simp_all add: B_def)
  define k where "k = ndigits b n - ndigits b d"
  from ndigits_bounds [OF n b] have Ln: "1 \<le> ndigits b n"
    and nlo: "b ^ nat (ndigits b n - 1) \<le> n" and nhi: "n < b ^ nat (ndigits b n)"
    by simp_all
  from ndigits_bounds [OF d b] have Ld: "1 \<le> ndigits b d"
    and dlo: "b ^ nat (ndigits b d - 1) \<le> d" and dhi: "d < b ^ nat (ndigits b d)"
    by simp_all
  have pw: "B powi m = of_int (b ^ nat m)" if "0 \<le> m" for m
    using that by (simp add: B_def power_int_nonneg_exp)
  from nlo Ln have nlo': "B powi (ndigits b n - 1) \<le> of_int n"
    by (simp add: pw del: of_int_power)
  from nhi Ln have nhi': "of_int n < B powi (ndigits b n)"
    by (simp add: pw del: of_int_power)
  from dlo Ld have dlo': "B powi (ndigits b d - 1) \<le> of_int d"
    by (simp add: pw del: of_int_power)
  from dhi Ld have dhi': "of_int d < B powi (ndigits b d)"
    by (simp add: pw del: of_int_power)
  have pp: "0 < B powi m" for m
    using Bpos by simp
  have "of_int n / of_int d < B powi (ndigits b n) / B powi (ndigits b d - 1)"
    using n d nhi' dlo' pp by (intro frac_less) simp_all
  also have "\<dots> = B powi (k + 1)"
    using B0 power_int_diff [of B "ndigits b n" "ndigits b d - 1"]
    by (simp add: k_def algebra_simps)
  finally have up: "\<bar>q\<bar> < B powi (k + 1)"
    by (simp add: qe)
  have "B powi (ndigits b n - 1) / B powi (ndigits b d) < of_int n / of_int d"
    using n d nlo' dhi' pp by (intro frac_less2) simp_all
  moreover have "B powi (ndigits b n - 1) / B powi (ndigits b d) = B powi (k - 1)"
    using B0 power_int_diff [of B "ndigits b n - 1" "ndigits b d"]
    by (simp add: k_def algebra_simps)
  ultimately have low: "B powi (k - 1) < \<bar>q\<bar>"
    by (simp add: qe)
  have il: "ilog b q = (if B powi k \<le> \<bar>q\<bar> then k else k - 1)"
    by (simp add: ilog_def nd k_def B_def Let_def)
  show ?thesis
    using up low by (auto simp: il B_def [symmetric])
qed


lemma round_half_even_error: "\<bar>of_int (round_half_even x) - x\<bar> \<le> 1 / 2"
proof -
  define r where "r = x - of_int \<lfloor>x\<rfloor>"
  have r: "0 \<le> r" "r < 1"
    unfolding r_def by linarith+
  have "of_int (round_half_even x) - x = - r \<or> of_int (round_half_even x) - x = 1 - r"
    by (auto simp: round_half_even_def Let_def r_def)
  moreover have "r \<le> 1 / 2" if "of_int (round_half_even x) - x = - r \<and> of_int (round_half_even x) - x \<noteq> 1 - r"
    using that by (auto simp: round_half_even_def Let_def r_def split: if_splits)
  moreover have "1 / 2 \<le> r" if "of_int (round_half_even x) - x = 1 - r"
    using that r by (auto simp: round_half_even_def Let_def r_def split: if_splits)
  ultimately show ?thesis
    using r by (auto simp: abs_if)
qed

lemma round_at_error:
  assumes "2 \<le> b"
  shows "\<bar>round_at b e q - q\<bar> \<le> of_int b powi e / 2"
proof -
  define P :: rat where "P = of_int b powi e"
  from assms have P: "0 < P"
    by (simp add: P_def)
  have "round_at b e q - q = (of_int (round_half_even (q / P)) - q / P) * P"
    using P by (simp add: round_at_def P_def [symmetric] algebra_simps)
  then have "\<bar>round_at b e q - q\<bar> = \<bar>of_int (round_half_even (q / P)) - q / P\<bar> * P"
    using P by (simp add: abs_mult)
  also have "\<dots> \<le> 1 / 2 * P"
    using P round_half_even_error [of "q / P"] by (intro mult_right_mono) simp_all
  finally show ?thesis
    by (simp add: P_def)
qed

lemma dec_round_error: "\<bar>dec_round q - q\<bar> \<le> \<bar>q\<bar> / (2 * 10 ^ 27)"
proof (cases "q = 0")
  case True
  then show ?thesis by (simp add: dec_round_def)
next
  case False
  from ilog_bounds [OF False, of 10] have "10 powi (ilog 10 q) \<le> \<bar>q\<bar>"
    by simp
  moreover have "(10::rat) powi (ilog 10 q - 27) = 10 powi (ilog 10 q) / 10 ^ 27"
    using power_int_diff [of "10::rat" "ilog 10 q" 27] by simp
  ultimately have "(10::rat) powi (ilog 10 q - 27) / 2 \<le> \<bar>q\<bar> / (2 * 10 ^ 27)"
    by (simp add: field_simps)
  with round_at_error [of 10 "ilog 10 q - 27" q] False show ?thesis
    by (simp add: dec_round_def)
qed

lemma float_round_error:
  assumes "min_normal \<le> \<bar>q\<bar>"
  shows "\<bar>float_round q - q\<bar> \<le> \<bar>q\<bar> / 2 ^ 53"
proof -
  have mpos: "0 < min_normal" by (simp add: min_normal_def)
  with assms have q: "q \<noteq> 0" by auto
  from ilog_bounds [OF q, of 2] have lo: "2 powi (ilog 2 q) \<le> \<bar>q\<bar>"
    and hi: "\<bar>q\<bar> < 2 powi (ilog 2 q + 1)"
    by simp_all
  define M :: int where "M = - 1022"
  have "(2::rat) powi M = min_normal"
    unfolding M_def min_normal_def by (simp add: power_int_minus_divide)
  with assms hi have lt: "(2::rat) powi M < 2 powi (ilog 2 q + 1)"
    by simp
  have "M < ilog 2 q + 1"
  proof (rule ccontr)
    assume "\<not> M < ilog 2 q + 1"
    then have "ilog 2 q + 1 \<le> M" by simp
    from power_int_increasing [OF this, of "2::rat"] lt show False by simp
  qed
  then have e: "max (ilog 2 q - 52) (- 1074) = ilog 2 q - 52"
    by (simp add: M_def)
  have "(2::rat) powi (ilog 2 q - 52) = 2 powi (ilog 2 q) / 2 ^ 52"
    using power_int_diff [of "2::rat" "ilog 2 q" 52] by simp
  with lo have "(2::rat) powi (ilog 2 q - 52) / 2 \<le> \<bar>q\<bar> / 2 ^ 53"
    by (simp add: field_simps)
  with round_at_error [of 2 "ilog 2 q - 52" q] q e show ?thesis
    by (simp add: float_round_def)
qed


lemma close_to_mono: "close_to e x y \<Longrightarrow> e \<le> e' \<Longrightarrow> close_to e' x y"
proof -
  assume a: "close_to e x y" and b: "e \<le> e'"
  from b have "e * \<bar>y\<bar> \<le> e' * \<bar>y\<bar>"
    by (intro mult_right_mono) simp_all
  with a show ?thesis by (simp add: close_to_def)
qed

lemma close_to_mult: "close_to e x y \<Longrightarrow> close_to e (x * c) (y * c)"
proof -
  assume a: "close_to e x y"
  have "\<bar>x * c - y * c\<bar> = \<bar>x - y\<bar> * \<bar>c\<bar>"
    by (simp add: abs_mult [symmetric] algebra_simps)
  also from a have "\<dots> \<le> e * \<bar>y\<bar> * \<bar>c\<bar>"
    by (intro mult_right_mono) (simp_all add: close_to_def)
  finally show ?thesis
    by (simp add: close_to_def abs_mult mult.assoc)
qed

lemma close_to_divide: "close_to e x y \<Longrightarrow> close_to e (x / c) (y / c)"
  using close_to_mult [of e x y "inverse c"] by (simp add: divide_inverse)

lemma close_to_trans:
  assumes xy: "close_to e1 y x" and yz: "close_to e2 z y" and e2: "0 \<le> e2"
  shows "close_to (e1 + e2 + e1 * e2) z x"
proof -
  from xy have "\<bar>y\<bar> \<le> \<bar>x\<bar> + e1 * \<bar>x\<bar>"
    unfolding close_to_def by linarith
  with e2 have "e2 * \<bar>y\<bar> \<le> e2 * (\<bar>x\<bar> + e1 * \<bar>x\<bar>)"
    by (intro mult_left_mono) simp_all
  with xy yz have "\<bar>z - x\<bar> \<le> e2 * (\<bar>x\<bar> + e1 * \<bar>x\<bar>) + e1 * \<bar>x\<bar>"
    unfolding close_to_def by linarith
  then show ?thesis
    by (simp add: close_to_def algebra_simps)
qed

lemma close_to_lower:
  assumes "close_to e x y" and "e \<le> 1 / 2"
  shows "\<bar>y\<bar> \<le> 2 * \<bar>x\<bar>"
proof -
  from assms(2) have "e * \<bar>y\<bar> \<le> 1 / 2 * \<bar>y\<bar>"
    by (intro mult_right_mono) simp_all
  with assms(1) show ?thesis
    unfolding close_to_def by linarith
qed

lemma close_to_dec_round: "close_to (1 / (2 * 10 ^ 27)) (dec_round q) q"
  using dec_round_error [of q] by (simp add: close_to_def)

lemma close_to_float_round:
  "q = 0 \<or> min_normal \<le> \<bar>q\<bar> \<Longrightarrow> close_to (1 / 2 ^ 53) (float_round q) q"
  using float_round_error [of q] by (auto simp: close_to_def float_round_def)

lemma float_round_small_ints: "float_round 1 = 1" "float_round 10000 = 10000"
  by code_simp+

lemma ret_pbs_close_to:
  assumes b: "b \<noteq> 0"
    and range: "a = b \<or> 2 * min_normal \<le> \<bar>(a - b) / b\<bar>"
  shows "\<exists>r. ret_pbs a b = Inr r \<and> close_to (1 / 2 ^ 51) r ((a - b) / b * 10000)"
proof (cases "a = b")
  case True
  then have "ret_pbs a b = Inr 0"
    using b by (simp add: ret_pbs_def dec_div_def dec_sub_def dec_round_def float_of_decimal_def
        float_mul_def float_round_def)
  with True show ?thesis by (simp add: close_to_def)
next
  case False
  with range have q: "2 * min_normal \<le> \<bar>(a - b) / b\<bar>" by simp
  have mpos: "0 < min_normal" by (simp add: min_normal_def)
  define d1 where "d1 = dec_round (a - b)"
  define d2 where "d2 = dec_round (d1 / b)"
  define f1 where "f1 = float_round d2"
  define r where "r = float_round (f1 * 10000)"
  define e2 :: rat where "e2 = 1 / (2 * 10 ^ 27) + 1 / (2 * 10 ^ 27) + 1 / (2 * 10 ^ 27) * (1 / (2 * 10 ^ 27))"
  define e3 :: rat where "e3 = e2 + 1 / 2 ^ 53 + e2 * (1 / 2 ^ 53)"
  define e4 :: rat where "e4 = e3 + 1 / 2 ^ 53 + e3 * (1 / 2 ^ 53)"
  have e: "e2 \<le> 1 / 2" "e3 \<le> 1 / 2" "e4 \<le> 1 / 2 ^ 51"
    by (simp_all add: e2_def e3_def e4_def)
  have "close_to (1 / (2 * 10 ^ 27)) (d1 / b) ((a - b) / b)"
    unfolding d1_def by (rule close_to_divide [OF close_to_dec_round])
  from close_to_trans [OF this close_to_dec_round [of "d1 / b"]]
  have w2: "close_to e2 d2 ((a - b) / b)"
    by (simp add: d2_def e2_def)
  from order_trans [OF q close_to_lower [OF w2 e(1)]] have d2: "min_normal \<le> \<bar>d2\<bar>"
    by simp
  from close_to_trans [OF w2 close_to_float_round [of d2]] d2
  have w3: "close_to e3 f1 ((a - b) / b)"
    by (simp add: f1_def e3_def)
  from order_trans [OF q close_to_lower [OF w3 e(2)]] have f1: "min_normal \<le> \<bar>f1\<bar>"
    by simp
  with mpos have "min_normal \<le> \<bar>f1 * 10000\<bar>"
    by (simp add: abs_mult)
  with close_to_trans [OF close_to_mult [OF w3, of 10000] close_to_float_round [of "f1 * 10000"]]
  have "close_to e4 r ((a - b) / b * 10000)"
    by (simp add: r_def e4_def)
  from close_to_mono [OF this e(3)] have "close_to (1 / 2 ^ 51) r ((a - b) / b * 10000)" .
  moreover have "ret_pbs a b = Inr r"
    using b by (simp add: ret_pbs_def dec_div_def dec_sub_def float_of_decimal_def float_mul_def
        float_of_int_def float_round_small_ints r_def f1_def d2_def d1_def)
  ultimately show ?thesis by blast
qed

lemma close_to_mult_left: "close_to e x y \<Longrightarrow> close_to e (c * x) (c * y)"
  using close_to_mult [of e x y c] by (simp add: mult.commute)

lemma in_normal_rangeD: "in_normal_range q \<Longrightarrow> q = 0 \<or> min_normal \<le> \<bar>q\<bar>"
proof -
  have "0 < min_normal" by (simp add: min_normal_def)
  moreover assume "in_normal_range q"
  ultimately show ?thesis
    unfolding in_normal_range_def by linarith
qed

lemma slippage_factor_close:
  assumes "0 \<le> n"
  shows "close_to (1 / 2 ^ 53 + 1 / 2 ^ 53 + 1 / 2 ^ 53 * (1 / 2 ^ 53))
           (float_add (float_of_int 1) (int_truediv n 10000)) (1 + of_int n / 10000)"
proof -
  define x :: rat where "x = of_int n / 10000"
  define fx where "fx = float_round x"
  from assms have x0: "0 \<le> x" by (simp add: x_def)
  have "x = 0 \<or> min_normal \<le> \<bar>x\<bar>"
  proof (cases "n = 0")
    case True
    then show ?thesis by (simp add: x_def)
  next
    case False
    with assms have "1 \<le> n" by simp
    then have "(1::rat) \<le> of_int n" by simp
    then have "1 / 10000 \<le> x" by (simp add: x_def)
    moreover have "min_normal \<le> 1 / 10000" by (simp add: min_normal_def)
    ultimately show ?thesis by simp
  qed
  from close_to_float_round [OF this] have "\<bar>fx - x\<bar> \<le> 1 / 2 ^ 53 * \<bar>x\<bar>"
    by (simp add: close_to_def fx_def)
  moreover from x0 have "1 / 2 ^ 53 * \<bar>x\<bar> \<le> 1 / 2 ^ 53 * \<bar>1 + x\<bar>"
    by (intro mult_left_mono) simp_all
  ultimately have c1: "close_to (1 / 2 ^ 53) (1 + fx) (1 + x)"
    by (simp add: close_to_def)
  have "(1 / 2 ^ 53 :: rat) \<le> 1 / 2" by simp
  from close_to_lower [OF c1 this] x0 have "1 / 2 \<le> \<bar>1 + fx\<bar>"
    by simp
  moreover have "min_normal \<le> 1 / 2" by (simp add: min_normal_def)
  ultimately have "min_normal \<le> \<bar>1 + fx\<bar>" by simp
  with close_to_trans [OF c1 close_to_float_round [of "1 + fx"]]
  show ?thesis
    by (simp add: float_add_def float_of_int_def int_truediv_def float_round_small_ints
        fx_def x_def)
qed

section \<open>Claim C7: the return in basis points\<close>

text \<open>
  Claim C7, as amended. For positive prices whose relative difference is zero or in the
  normal range of binary64, the detector computes the return \<open>r\<close> as follows: the
  difference of the two prices and its quotient by the price in the denominator, each
  rounded to the 28 digits of the decimal context, then the conversion to float and the
  product by 10000, each rounded to binary64. This \<open>r\<close> is the closed form
  \<open>(perp_sell_price - spot_buy_price) / spot_buy_price * 10000\<close> (for SellSpotLongPerp
  \<open>(spot_sell_price - perp_buy_price) / perp_buy_price * 10000\<close>) up to a relative error
  of at most \<open>2 ^ - 51\<close>, and the direction is reported profitable if and only if \<open>r\<close> is
  at least the margin of that direction.
\<close>

theorem return_close_to_closed_form:
  "(limit_taker_price env s (spot_connector s) True = Inr spot_buy_price
      \<and> limit_taker_price env s (perp_connector s) False = Inr perp_sell_price
      \<and> 0 < spot_buy_price \<and> 0 < perp_sell_price
      \<and> in_normal_range ((perp_sell_price - spot_buy_price) / spot_buy_price)
    \<longrightarrow> (let r = float_mul
                    (float_of_decimal
                       (dec_round (dec_sub perp_sell_price spot_buy_price / spot_buy_price)))
                    (float_of_int 10000)
         in should_buy_spot_short_perp env s
              = Inr (of_int (buy_spot_short_perp_profit_margin_bps s) \<le> r)
            \<and> close_to (1 / 2 ^ 51) r
                 ((perp_sell_price - spot_buy_price) / spot_buy_price * 10000)))
   \<and> (limit_taker_price env s (spot_connector s) False = Inr spot_sell_price
      \<and> limit_taker_price env s (perp_connector s) True = Inr perp_buy_price
      \<and> 0 < spot_sell_price \<and> 0 < perp_buy_price
      \<and> in_normal_range ((spot_sell_price - perp_buy_price) / perp_buy_price)
    \<longrightarrow> (let r = float_mul
                    (float_of_decimal
                       (dec_round (dec_sub spot_sell_price perp_buy_price / perp_buy_price)))
                    (float_of_int 10000)
         in should_sell_spot_long_perp env s
              = Inr (of_int (sell_spot_long_perp_profit_margin_bps s) \<le> r)
            \<and> close_to (1 / 2 ^ 51) r
                 ((spot_sell_price - perp_buy_price) / perp_buy_price * 10000)))"
proof -
  have r: "ret_pbs a b
             = Inr (float_mul (float_of_decimal (dec_round (dec_sub a b / b))) (float_of_int 10000))
           \<and> close_to (1 / 2 ^ 51)
               (float_mul (float_of_decimal (dec_round (dec_sub a b / b))) (float_of_int 10000))
               ((a - b) / b * 10000)"
    if "0 < b" "in_normal_range ((a - b) / b)" for a b
  proof -
    from that have b: "b \<noteq> 0" and "a = b \<or> 2 * min_normal \<le> \<bar>(a - b) / b\<bar>"
      by (auto simp: in_normal_range_def)
    from ret_pbs_close_to [OF this] obtain x where
      x: "ret_pbs a b = Inr x" "close_to (1 / 2 ^ 51) x ((a - b) / b * 10000)"
      by blast
    from b have "ret_pbs a b
             = Inr (float_mul (float_of_decimal (dec_round (dec_sub a b / b))) (float_of_int 10000))"
      by (simp add: ret_pbs_def dec_div_def)
    with x show ?thesis by simp
  qed
  show ?thesis
  proof (intro conjI impI)
    assume a: "limit_taker_price env s (spot_connector s) True = Inr spot_buy_price
      \<and> limit_taker_price env s (perp_connector s) False = Inr perp_sell_price
      \<and> 0 < spot_buy_price \<and> 0 < perp_sell_price
      \<and> in_normal_range ((perp_sell_price - spot_buy_price) / spot_buy_price)"
    with r [of spot_buy_price perp_sell_price]
    show "let r = float_mul
                    (float_of_decimal
                       (dec_round (dec_sub perp_sell_price spot_buy_price / spot_buy_price)))
                    (float_of_int 10000)
         in should_buy_spot_short_perp env s
              = Inr (of_int (buy_spot_short_perp_profit_margin_bps s) \<le> r)
            \<and> close_to (1 / 2 ^ 51) r
                 ((perp_sell_price - spot_buy_price) / spot_buy_price * 10000)"
      by (simp add: should_buy_spot_short_perp_def Let_def)
  next
    assume a: "limit_taker_price env s (spot_connector s) False = Inr spot_sell_price
      \<and> limit_taker_price env s (perp_connector s) True = Inr perp_buy_price
      \<and> 0 < spot_sell_price \<and> 0 < perp_buy_price
      \<and> in_normal_range ((spot_sell_price - perp_buy_price) / perp_buy_price)"
    with r [of perp_buy_price spot_sell_price]
    show "let r = float_mul
                    (float_of_decimal
                       (dec_round (dec_sub spot_sell_price perp_buy_price / perp_buy_price)))
                    (float_of_int 10000)
         in should_sell_spot_long_perp env s
              = Inr (of_int (sell_spot_long_perp_profit_margin_bps s) \<le> r)
            \<and> close_to (1 / 2 ^ 51) r
                 ((spot_sell_price - perp_buy_price) / perp_buy_price * 10000)"
      by (simp add: should_sell_spot_long_perp_def Let_def)
  qed
qed

theorem return_close_to_closed_form_witness:
  "limit_taker_price (env_A 100) init_strategy (spot_connector init_strategy) True = Inr 1
   \<and> limit_taker_price (env_A 100) init_strategy (perp_connector init_strategy) False
       = Inr (10025 / 10000)
   \<and> in_normal_range ((10025 / 10000 - 1) / 1)
   \<and> float_mul (float_of_decimal (dec_round (dec_sub (10025 / 10000) 1 / 1))) (float_of_int 10000)
       = 25
   \<and> should_buy_spot_short_perp (env_A 100) init_strategy = Inr True"
proof -
  have p: "limit_taker_price (env_A 100) init_strategy (spot_connector init_strategy) True = Inr 1"
    "limit_taker_price (env_A 100) init_strategy (perp_connector init_strategy) False
       = Inr (10025 / 10000)"
    by (simp_all add: limit_taker_price_def env_A_def test_env_def prices_A_def init_strategy_def)
  have n: "in_normal_range ((10025 / 10000 - 1) / 1)"
    by (simp add: in_normal_range_def min_normal_def)
  have m: "buy_spot_short_perp_profit_margin_bps init_strategy = 20"
    by (simp add: init_strategy_def)
  have v: "float_mul (float_of_decimal (dec_round (dec_sub (10025 / 10000) 1 / 1)))
             (float_of_int 10000) = 25"
    by code_simp
  from return_close_to_closed_form [of "env_A 100" init_strategy 1 "10025 / 10000"] p n m v
  show ?thesis by (simp add: Let_def)
qed

text \<open>
  The claim as stated fails. For the prices 4 and 3 the computed return is the binary64
  number \<open>3665038759253333 / 2 ^ 40\<close>, not \<open>10000 / 3\<close>. And with a spot buy price of 1
  and a perpetual sell price of 1.0019999999999999999999 the closed form is below the
  margin of 20 basis points, while the detector reports the direction profitable.
\<close>

theorem return_not_exact_counterexample:
  "ret_pbs 4 3 = Inr (3665038759253333 / 1099511627776)
   \<and> (3665038759253333 / 1099511627776 :: rat) \<noteq> (4 - 3) / 3 * 10000
   \<and> limit_taker_price (env_edge 100) init_strategy ''kucoin'' True = Inr 1
   \<and> limit_taker_price (env_edge 100) init_strategy ''kucoin_perpetual'' False
       = Inr (10019999999999999999999 / 10 ^ 22)
   \<and> ((10019999999999999999999 / 10 ^ 22 - 1) / 1 * 10000 :: rat) < 20
   \<and> buy_spot_short_perp_profit_margin_bps init_strategy = 20
   \<and> should_buy_spot_short_perp (env_edge 100) init_strategy = Inr True"
proof -
  have 1: "ret_pbs 4 3 = Inr (3665038759253333 / 1099511627776)"
    by code_simp
  have 2: "should_buy_spot_short_perp (env_edge 100) init_strategy = Inr True"
    by code_simp
  have 3: "limit_taker_price (env_edge 100) init_strategy ''kucoin'' True = Inr 1"
    "limit_taker_price (env_edge 100) init_strategy ''kucoin_perpetual'' False
       = Inr (10019999999999999999999 / 10 ^ 22)"
    by (simp_all add: limit_taker_price_def env_edge_def test_env_def prices_edge_def)
  from 1 2 3 show ?thesis
    by (simp add: init_strategy_def)
qed

section \<open>Claim C8: the feasibility of BuySpotShortPerp\<close>

text \<open>
  Claim C8, as amended. With balances that are zero or in the normal range of binary64
  and a slippage buffer that is not negative, \<^verbatim>\<open>can_buy_spot_short_perp\<close> returns true
  if and only if \<open>rs \<le> fs\<close> and \<open>rp \<le> fp\<close>, where: \<open>fs\<close> and \<open>fp\<close> are the spot and
  the perpetual quote balance converted to float (relative error at most \<open>2 ^ - 53\<close>);
  \<open>rs\<close> is the spot taker-buy price times the float \<open>1 + slippage_buffer_bps / 10000\<close>
  times the order size, each Decimal product rounded to 28 digits, which is the exact
  product with \<open>1 + slippage_buffer_bps / 10000\<close> up to a relative error of at most
  \<open>2 ^ - 51\<close>; and \<open>rp\<close> is the perpetual taker-sell price, without slippage, times the
  order size, rounded to 28 digits.
\<close>

theorem feasibility_close_to_closed_form:
  assumes bs: "get_available_balance env (spot_connector s)
                 (snd (split_hb_trading_pair env (trading_pair s))) = Inr spot_balance"
    and bp: "get_available_balance env (perp_connector s)
                 (snd (split_hb_trading_pair env (trading_pair s))) = Inr perp_balance"
    and ps: "limit_taker_price env s (spot_connector s) True = Inr buy_price"
    and pp: "limit_taker_price env s (perp_connector s) False = Inr short_price"
    and bps: "0 \<le> slippage_buffer_bps s"
    and rs: "in_normal_range spot_balance" and rp: "in_normal_range perp_balance"
  shows "let fs = float_of_decimal spot_balance;
             fp = float_of_decimal perp_balance;
             slippage = decimal_of_float
                          (float_add (float_of_int 1) (int_truediv (slippage_buffer_bps s) 10000));
             rs = dec_mul (dec_mul buy_price slippage) (base_order_amount s);
             rp = dec_mul short_price (base_order_amount s)
         in can_buy_spot_short_perp env s
              = Inr (rs \<le> decimal_of_float fs \<and> rp \<le> decimal_of_float fp)
            \<and> close_to (1 / 2 ^ 53) fs spot_balance
            \<and> close_to (1 / 2 ^ 51) rs
                (buy_price * (1 + of_int (slippage_buffer_bps s) / 10000) * base_order_amount s)
            \<and> close_to (1 / 2 ^ 53) fp perp_balance
            \<and> close_to (1 / (2 * 10 ^ 27)) rp (short_price * base_order_amount s)"
proof -
  define slip where
    "slip = float_add (float_of_int 1) (int_truediv (slippage_buffer_bps s) 10000)"
  define fs where "fs = float_round spot_balance"
  define fp where "fp = float_round perp_balance"
  define r1 where "r1 = dec_round (buy_price * slip)"
  define r2 where "r2 = dec_round (r1 * base_order_amount s)"
  define rq where "rq = dec_round (short_price * base_order_amount s)"
  define e0 :: rat where "e0 = 1 / 2 ^ 53 + 1 / 2 ^ 53 + 1 / 2 ^ 53 * (1 / 2 ^ 53)"
  define e1 :: rat where "e1 = e0 + 1 / (2 * 10 ^ 27) + e0 * (1 / (2 * 10 ^ 27))"
  define e2 :: rat where "e2 = e1 + 1 / (2 * 10 ^ 27) + e1 * (1 / (2 * 10 ^ 27))"
  have e: "e2 \<le> 1 / 2 ^ 51"
    by (simp add: e0_def e1_def e2_def)
  have "close_to e0 slip (1 + of_int (slippage_buffer_bps s) / 10000)"
    unfolding slip_def e0_def by (rule slippage_factor_close [OF bps])
  then have "close_to e0 (buy_price * slip)
               (buy_price * (1 + of_int (slippage_buffer_bps s) / 10000))"
    by (rule close_to_mult_left)
  from close_to_trans [OF this close_to_dec_round [of "buy_price * slip"]]
  have "close_to e1 r1 (buy_price * (1 + of_int (slippage_buffer_bps s) / 10000))"
    by (simp add: r1_def e1_def)
  then have "close_to e1 (r1 * base_order_amount s)
               (buy_price * (1 + of_int (slippage_buffer_bps s) / 10000) * base_order_amount s)"
    by (rule close_to_mult)
  from close_to_trans [OF this close_to_dec_round [of "r1 * base_order_amount s"]]
  have "close_to e2 r2
          (buy_price * (1 + of_int (slippage_buffer_bps s) / 10000) * base_order_amount s)"
    by (simp add: r2_def e2_def)
  from close_to_mono [OF this e]
  have c2: "close_to (1 / 2 ^ 51) r2
          (buy_price * (1 + of_int (slippage_buffer_bps s) / 10000) * base_order_amount s)" .
  have cq: "close_to (1 / (2 * 10 ^ 27)) rq (short_price * base_order_amount s)"
    unfolding rq_def by (rule close_to_dec_round)
  have cs: "close_to (1 / 2 ^ 53) fs spot_balance"
    unfolding fs_def by (rule close_to_float_round [OF in_normal_rangeD [OF rs]])
  have cp: "close_to (1 / 2 ^ 53) fp perp_balance"
    unfolding fp_def by (rule close_to_float_round [OF in_normal_rangeD [OF rp]])
  have gs: "get_balance env s (spot_connector s) False = Inr fs"
    by (simp add: get_balance_def case_prod_beta bs fs_def float_of_decimal_def)
  have gp: "get_balance env s (perp_connector s) False = Inr fp"
    by (simp add: get_balance_def case_prod_beta bp fp_def float_of_decimal_def)
  have "can_buy_spot_short_perp env s = Inr (r2 \<le> fs \<and> rq \<le> fp)"
    by (simp add: can_buy_spot_short_perp_def gs gp ps pp
        limit_taker_price_with_slippage_def dec_mul_def decimal_of_float_def
        slip_def r1_def r2_def rq_def Let_def)
  with c2 cq cs cp show ?thesis
    by (simp add: Let_def dec_mul_def decimal_of_float_def float_of_decimal_def
        slip_def fs_def fp_def r1_def r2_def rq_def)
qed

theorem feasibility_close_to_closed_form_witness:
  "in_normal_range 1000
   \<and> float_of_decimal 1000 = 1000
   \<and> dec_mul (dec_mul 1 (decimal_of_float (float_add (float_of_int 1) (int_truediv 5 10000)))) 100
       = 1000499999999999944932937979 / 10 ^ 25
   \<and> dec_mul (10025 / 10000) 100 = 10025 / 100
   \<and> can_buy_spot_short_perp (env_A 100) init_strategy = Inr True"
proof -
  have n: "in_normal_range 1000"
    by (simp add: in_normal_range_def min_normal_def)
  have b: "get_available_balance (env_A 100) (spot_connector init_strategy)
             (snd (split_hb_trading_pair (env_A 100) (trading_pair init_strategy))) = Inr 1000"
    "get_available_balance (env_A 100) (perp_connector init_strategy)
             (snd (split_hb_trading_pair (env_A 100) (trading_pair init_strategy))) = Inr 1000"
    by (simp_all add: env_A_def test_env_def)
  have p: "limit_taker_price (env_A 100) init_strategy (spot_connector init_strategy) True = Inr 1"
    "limit_taker_price (env_A 100) init_strategy (perp_connector init_strategy) False
       = Inr (10025 / 10000)"
    by (simp_all add: limit_taker_price_def env_A_def test_env_def prices_A_def init_strategy_def)
  have c: "0 \<le> slippage_buffer_bps init_strategy" "slippage_buffer_bps init_strategy = 5"
    "base_order_amount init_strategy = 100"
    by (simp_all add: init_strategy_def)
  have v: "float_of_decimal 1000 = 1000"
    "dec_mul (dec_mul 1 (decimal_of_float (float_add (float_of_int 1) (int_truediv 5 10000)))) 100
       = 1000499999999999944932937979 / 10 ^ 25"
    "dec_mul (10025 / 10000) 100 = 10025 / 100"
    by code_simp+
  from feasibility_close_to_closed_form [OF b p c(1) n n] n c(2,3) v
  show ?thesis by (simp add: Let_def decimal_of_float_def)
qed

text \<open>
  The claim as stated fails: with a spot buy price of 1, an order size of 100 and the
  slippage buffer of 5 basis points the claim requires a spot quote balance of 100.05;
  with a balance of 100.049999999999995 the check returns true.
\<close>

theorem feasibility_not_exact_counterexample:
  "get_available_balance (env_short 100) ''kucoin'' ''USDT'' = Inr (100049999999999995 / 10 ^ 15)
   \<and> limit_taker_price (env_short 100) init_strategy ''kucoin'' True = Inr 1
   \<and> (100049999999999995 / 10 ^ 15 :: rat) < 1 * (1 + 5 / 10000) * 100
   \<and> can_buy_spot_short_perp (env_short 100) init_strategy = Inr True"
proof -
  have 1: "can_buy_spot_short_perp (env_short 100) init_strategy = Inr True"
    by code_simp
  have 2: "get_available_balance (env_short 100) ''kucoin'' ''USDT''
             = Inr (100049999999999995 / 10 ^ 15)"
    "limit_taker_price (env_short 100) init_strategy ''kucoin'' True = Inr 1"
    by (simp_all add: limit_taker_price_def env_short_def test_env_def prices_A_def
        balances_short_def)
  from 1 2 show ?thesis by simp
qed

end
